theory Spec2Isabelle
  imports Main
begin

section \<open>NEMO authentication backends, login view and migration 0040\<close>

text \<open>
  A shallow embedding of \<^verbatim>\<open>NEMO/views/authentication.py\<close> and of
  \<^verbatim>\<open>NEMO/migrations/0040_auto_20220504_1601.py\<close>.

  Every function returns its result together with the list of effects it had on the
  outside world (database reads, log lines, calls into the LDAP client library, the
  session), in the order in which they happen. An exception that leaves a function is
  the \<open>Inl\<close> branch of its result.

  Python \<^verbatim>\<open>str\<close> values are \<open>string\<close>s. A keyword argument or dictionary key
  that may be absent is an \<open>option\<close>.
\<close>

subsection \<open>Users, exceptions, effects\<close>

text \<open>
  Modelled from the spec: \<^verbatim>\<open>NEMO.models.User\<close> (section 3: "looked up by username,
  checked for an active flag"). The table is keyed by the unique user name.
\<close>

record user =
  username :: string
  is_active :: bool

type_synonym user_table = "string \<rightharpoonup> user"

datatype exn =
    DoesNotExist
  | InactiveUserError string
  | KeyError string
  | IndexError
  | ValueError
  | BinasciiError
  | UnicodeDecodeError
  | AssertionError

datatype level = DEBUG | WARNING

datatype authentication = SIMPLE | ANONYMOUS

datatype auto_bind = AUTO_BIND_TLS_BEFORE_BIND | AUTO_BIND_NO_TLS

text \<open>The \<^verbatim>\<open>ldap3.Server\<close> object built at line 103.\<close>

record ldap_server =
  host :: string
  server_port :: int
  server_use_ssl :: bool
  ca_certs_file :: "string option"

datatype event =
    DbGet "string option"
  | Log level string
  | LdapTls "string option"
  | LdapServer ldap_server
  | LdapConnection ldap_server "string option" "string option" auto_bind authentication
  | LdapSearch ldap_server string string string
  | LdapUnbind ldap_server
  | SessionLogin user
  | SensitivePostParameters "string list"

text \<open>The request, as far as the views read it; \<open>request_method\<close> is \<^verbatim>\<open>request.method\<close>.\<close>

record request =
  request_method :: string
  META :: "string \<rightharpoonup> string"
  GET :: "string \<rightharpoonup> string"
  POST :: "string \<rightharpoonup> string"
  user_is_authenticated :: bool

text \<open>
  The decorator \<^verbatim>\<open>sensitive_post_parameters(*parameters)\<close> of
  \<^verbatim>\<open>django.views.decorators.debug\<close>, which lines 77 and 148 put around
  \<^verbatim>\<open>LDAPAuthenticationBackend.authenticate\<close> and \<^verbatim>\<open>login_user\<close>, each time with the
  one parameter \<^verbatim>\<open>'password'\<close>. Before the decorated function runs, the wrapper asserts
  that its request is an \<^verbatim>\<open>HttpRequest\<close> (\<open>None\<close> here is a call without one, which
  raises \<^verbatim>\<open>AssertionError\<close>) and stores the parameter names in
  \<^verbatim>\<open>request.sensitive_post_parameters\<close>.
\<close>

definition sensitive_post_parameters ::
  "string list \<Rightarrow> (request \<Rightarrow> (exn + 'a) \<times> event list) \<Rightarrow> request option
     \<Rightarrow> (exn + 'a) \<times> event list" where
  "sensitive_post_parameters parameters view request =
     (case request of
        None \<Rightarrow> (Inl AssertionError, [])
      | Some req \<Rightarrow>
          (case view req of (r, evs) \<Rightarrow> (r, SensitivePostParameters parameters # evs)))"

text \<open>\<^verbatim>\<open>User.objects.get(username=...)\<close>; a \<^verbatim>\<open>None\<close> user name matches no row.\<close>

definition objects_get :: "user_table \<Rightarrow> string option \<Rightarrow> exn + user" where
  "objects_get users name =
     (case name of
        None \<Rightarrow> Inl DoesNotExist
      | Some n \<Rightarrow> (case users n of None \<Rightarrow> Inl DoesNotExist | Some u \<Rightarrow> Inr u))"

subsection \<open>The LDAP client library and the server descriptors\<close>

text \<open>
  One entry of \<^verbatim>\<open>settings.LDAP_SERVERS\<close>. The code reads \<^verbatim>\<open>url\<close> and
  \<^verbatim>\<open>base_dn\<close> by subscript (a missing key raises \<^verbatim>\<open>KeyError\<close>) and every other
  key with \<^verbatim>\<open>get\<close>.
\<close>

record server_descriptor =
  url :: "string option"
  port :: "int option"
  use_ssl :: "bool option"
  bind_as_authentication :: "bool option"
  domain :: "string option"
  certificate :: "string option"
  bind_username :: "string option"
  bind_password :: "string option"
  search_username_field :: "string option"
  search_attribute :: "string option"
  base_dn :: "string option"

text \<open>
  The exceptions of \<^verbatim>\<open>ldap3\<close>, with \<^verbatim>\<open>str(e)\<close>. \<^verbatim>\<open>LDAPBindError\<close> is the
  subclass the first handler catches; \<open>LDAPException\<close> stands for every other one.
\<close>

datatype ldap_exc = LDAPBindError string | LDAPException string

text \<open>One entry of \<^verbatim>\<open>c.response\<close>: its \<^verbatim>\<open>dn\<close> and the names of its attributes.\<close>

record entry =
  dn :: "string option"
  attributes :: "string list"

text \<open>
  The directory servers seen through \<^verbatim>\<open>ldap3\<close>: what each constructor and
  \<^verbatim>\<open>search\<close> answers. \<^verbatim>\<open>Connection\<close> binds at once (\<^verbatim>\<open>auto_bind\<close>) and raises
  when the bind fails (\<^verbatim>\<open>raise_exceptions=True\<close>); \<open>None\<close> is a bound connection.
  \<^verbatim>\<open>search\<close> answers its truth value and \<^verbatim>\<open>c.response\<close>. \<^verbatim>\<open>unbind\<close> does not fail.
\<close>

record ldap_lib =
  Tls :: "string option \<Rightarrow> ldap_exc option"
  Server :: "ldap_server \<Rightarrow> ldap_exc option"
  Connection ::
    "ldap_server \<Rightarrow> string option \<Rightarrow> string option \<Rightarrow> auto_bind \<Rightarrow> authentication
       \<Rightarrow> ldap_exc option"
  search :: "ldap_server \<Rightarrow> string \<Rightarrow> string \<Rightarrow> string \<Rightarrow> ldap_exc + bool \<times> entry list"

subsection \<open>Log messages of the LDAP backend\<close>

definition unknown_user_message :: "string \<Rightarrow> string" where
  "unknown_user_message name =
     ''Username '' @ name @ '' attempted to authenticate with LDAP, but that username does not exist in the NEMO database. The user was denied access.''"

definition inactive_user_message :: "string \<Rightarrow> string" where
  "inactive_user_message name =
     ''User '' @ name @ '' successfully authenticated with LDAP, but that user is marked inactive in the NEMO database. The user was denied access.''"

definition no_results_message :: "string \<Rightarrow> string \<Rightarrow> string \<Rightarrow> string \<Rightarrow> string \<Rightarrow> string" where
  "no_results_message name u base field attr =
     ''User '' @ name @ '' attempted to authenticate with LDAP ('' @ u
       @ ''), but the search with dn:'' @ base @ '', username_field:'' @ field
       @ '' and attribute:'' @ attr
       @ '' did not return any results. The user was denied access''"

definition authenticated_message :: "string \<Rightarrow> string \<Rightarrow> string" where
  "authenticated_message name u =
     ''User '' @ name @ '' was successfully authenticated with LDAP ('' @ u @ '')''"

definition incorrect_password_message :: "string \<Rightarrow> string \<Rightarrow> string \<Rightarrow> string" where
  "incorrect_password_message name u e =
     ''User '' @ name @ '' attempted to authenticate with LDAP ('' @ u
       @ ''), but entered an incorrect password. The user was denied access: '' @ e"

definition error_occurred_message :: "string \<Rightarrow> string \<Rightarrow> string \<Rightarrow> string" where
  "error_occurred_message name u e =
     ''User '' @ name @ '' attempted to authenticate with LDAP ('' @ u
       @ ''), but an error occurred. The user was denied access: '' @ e"

subsection \<open>\<^verbatim>\<open>LDAPAuthenticationBackend.authenticate\<close>: one pass of the loop body\<close>

text \<open>
  How one iteration ends: at \<^verbatim>\<open>break\<close> (line 133), with a message appended to
  \<^verbatim>\<open>errors\<close> (lines 119, 135, 137) and the loop going on, or with an exception that
  neither handler catches.
\<close>

datatype attempt = Authenticated | is_Failed: Failed (message: string) | Raised exn

text \<open>
  The two \<^verbatim>\<open>except\<close> clauses (lines 134 to 137). Both format \<^verbatim>\<open>server['url']\<close>,
  which raises \<^verbatim>\<open>KeyError\<close> from inside the handler when the key is absent.
\<close>

definition handle_ldap_exception :: "string \<Rightarrow> server_descriptor \<Rightarrow> ldap_exc \<Rightarrow> attempt" where
  "handle_ldap_exception name server e =
     (case url server of
        None \<Rightarrow> Raised (KeyError ''url'')
      | Some u \<Rightarrow>
          (case e of
             LDAPBindError m \<Rightarrow> Failed (incorrect_password_message name u m)
           | LDAPException m \<Rightarrow> Failed (error_occurred_message name u m)))"

text \<open>Python truth of an optional string: present and not empty.\<close>

definition truthy :: "string option \<Rightarrow> bool" where
  "truthy v = (case v of None \<Rightarrow> False | Some s \<Rightarrow> s \<noteq> [])"

text \<open>\<^verbatim>\<open>f"{domain}\\{name}"\<close>: the two parts joined by one backslash.\<close>

definition with_domain :: "string \<Rightarrow> string \<Rightarrow> string" where
  "with_domain d name = d @ [CHR 0x5C] @ name"

text \<open>Lines 98 to 100: the keys read with a default.\<close>

definition port_of :: "server_descriptor \<Rightarrow> int" where
  "port_of server = (case port server of Some p \<Rightarrow> p | None \<Rightarrow> 636)"

definition use_ssl_of :: "server_descriptor \<Rightarrow> bool" where
  "use_ssl_of server = (case use_ssl server of Some b \<Rightarrow> b | None \<Rightarrow> True)"

definition bind_as_authentication_of :: "server_descriptor \<Rightarrow> bool" where
  "bind_as_authentication_of server =
     (case bind_as_authentication server of Some b \<Rightarrow> b | None \<Rightarrow> True)"

text \<open>Lines 102 and 103: the server object for the descriptor's \<^verbatim>\<open>url\<close>.\<close>

definition server_object :: "server_descriptor \<Rightarrow> string \<Rightarrow> ldap_server" where
  "server_object server u =
     \<lparr>host = u, server_port = port_of server, server_use_ssl = use_ssl_of server,
      ca_certs_file = certificate server\<rparr>"

text \<open>Line 104.\<close>

definition auto_bind_of :: "server_descriptor \<Rightarrow> auto_bind" where
  "auto_bind_of server =
     (if use_ssl_of server then AUTO_BIND_TLS_BEFORE_BIND else AUTO_BIND_NO_TLS)"

text \<open>Line 105: the name the user binds with when no search is made.\<close>

definition direct_bind_user :: "server_descriptor \<Rightarrow> string \<Rightarrow> string" where
  "direct_bind_user server name =
     (if truthy (domain server) then with_domain (the (domain server)) name else name)"

text \<open>Lines 108 to 111: the account of the search bind.\<close>

definition search_bind_username :: "server_descriptor \<Rightarrow> string option" where
  "search_bind_username server =
     (if truthy (domain server) \<and> truthy (bind_username server)
      then Some (with_domain (the (domain server)) (the (bind_username server)))
      else bind_username server)"

definition search_authentication :: "server_descriptor \<Rightarrow> authentication" where
  "search_authentication server =
     (if truthy (search_bind_username server) \<and> truthy (bind_password server) then SIMPLE
      else ANONYMOUS)"

text \<open>Lines 113 to 115: the search's field, attribute and filter.\<close>

definition search_username_field_of :: "server_descriptor \<Rightarrow> string" where
  "search_username_field_of server =
     (case search_username_field server of Some f \<Rightarrow> f | None \<Rightarrow> ''uid'')"

definition search_attribute_of :: "server_descriptor \<Rightarrow> string" where
  "search_attribute_of server =
     (case search_attribute server of Some a \<Rightarrow> a | None \<Rightarrow> ''cn'')"

definition search_filter :: "server_descriptor \<Rightarrow> string \<Rightarrow> string" where
  "search_filter server name = ''('' @ search_username_field_of server @ ''='' @ name @ '')''"

text \<open>Line 119: the message of a search without result.\<close>

definition search_failure :: "string \<Rightarrow> server_descriptor \<Rightarrow> string \<Rightarrow> string \<Rightarrow> string" where
  "search_failure name server u base =
     no_results_message name u base (search_username_field_of server) (search_attribute_of server)"

text \<open>Lines 127 to 133: bind as the user who is logging in.\<close>

definition bind_as_user ::
  "ldap_lib \<Rightarrow> string \<Rightarrow> string \<Rightarrow> server_descriptor \<Rightarrow> string \<Rightarrow> string
     \<Rightarrow> attempt \<times> event list" where
  "bind_as_user lib name password server u ldap_bind_user =
     (let s = server_object server u;
          connect = LdapConnection s (Some ldap_bind_user) (Some password) (auto_bind_of server) SIMPLE
      in case Connection lib s (Some ldap_bind_user) (Some password) (auto_bind_of server) SIMPLE of
           Some e \<Rightarrow> (handle_ldap_exception name server e, [connect])
         | None \<Rightarrow>
             (Authenticated, [connect, LdapUnbind s, Log DEBUG (authenticated_message name u)]))"

text \<open>
  Lines 116 to 125: what the iteration does with the answer of \<^verbatim>\<open>search\<close>. The result
  is the distinguished name to bind with, or the way the iteration ends here.
  \<open>done\<close> are the library calls made so far.
\<close>

definition read_response ::
  "string \<Rightarrow> string \<Rightarrow> ldap_server \<Rightarrow> bool \<Rightarrow> entry list \<Rightarrow> event list
     \<Rightarrow> (attempt + string) \<times> event list" where
  "read_response no_results attr s found response done =
     (if \<not> found then (Inl (Failed no_results), done @ [LdapUnbind s])
      else
        (case response of
           [] \<Rightarrow> (Inl (Raised IndexError), done)
         | first # _ \<Rightarrow>
             (if attr \<notin> set (attributes first) then
                (Inl (Failed no_results), done @ [LdapUnbind s])
              else
                (case dn first of
                   None \<Rightarrow> (Inl (Raised (KeyError ''dn'')), done)
                 | Some d \<Rightarrow> (Inr d, done @ [LdapUnbind s])))))"

text \<open>Lines 106 to 125: bind with the configured account and search for the user.\<close>

definition search_for_user ::
  "ldap_lib \<Rightarrow> string \<Rightarrow> server_descriptor \<Rightarrow> string \<Rightarrow> (attempt + string) \<times> event list" where
  "search_for_user lib name server u =
     (let s = server_object server u;
          connect =
            LdapConnection s (search_bind_username server) (bind_password server)
              (auto_bind_of server) (search_authentication server)
      in case Connection lib s (search_bind_username server) (bind_password server)
                (auto_bind_of server) (search_authentication server) of
           Some e \<Rightarrow> (Inl (handle_ldap_exception name server e), [connect])
         | None \<Rightarrow>
             (case base_dn server of
                None \<Rightarrow> (Inl (Raised (KeyError ''base_dn'')), [connect])
              | Some base \<Rightarrow>
                  (let look = LdapSearch s base (search_filter server name) (search_attribute_of server)
                   in case search lib s base (search_filter server name) (search_attribute_of server) of
                        Inl e \<Rightarrow> (Inl (handle_ldap_exception name server e), [connect, look])
                      | Inr (found, response) \<Rightarrow>
                          read_response (search_failure name server u base)
                            (search_attribute_of server) s found response [connect, look])))"

text \<open>Lines 97 to 137: the body of the \<^verbatim>\<open>for\<close> loop for one server.\<close>

definition ldap_attempt ::
  "ldap_lib \<Rightarrow> string \<Rightarrow> string \<Rightarrow> server_descriptor \<Rightarrow> attempt \<times> event list" where
  "ldap_attempt lib name password server =
     (case Tls lib (certificate server) of
        Some e \<Rightarrow> (handle_ldap_exception name server e, [LdapTls (certificate server)])
      | None \<Rightarrow>
          (case url server of
             None \<Rightarrow> (Raised (KeyError ''url''), [LdapTls (certificate server)])
           | Some u \<Rightarrow>
               (let opened = [LdapTls (certificate server), LdapServer (server_object server u)]
                in case Server lib (server_object server u) of
                     Some e \<Rightarrow> (handle_ldap_exception name server e, opened)
                   | None \<Rightarrow>
                       (if \<not> bind_as_authentication_of server then
                          (case search_for_user lib name server u of
                             (Inl a, evs) \<Rightarrow> (a, opened @ evs)
                           | (Inr d, evs) \<Rightarrow>
                               (case bind_as_user lib name password server u d of
                                  (a, evs') \<Rightarrow> (a, opened @ evs @ evs')))
                        else
                          (case bind_as_user lib name password server u
                                  (direct_bind_user server name) of
                             (a, evs) \<Rightarrow> (a, opened @ evs))))))"

subsection \<open>\<^verbatim>\<open>LDAPAuthenticationBackend.authenticate\<close>\<close>

text \<open>
  Lines 96 to 137: the \<^verbatim>\<open>for\<close> loop. The result is \<^verbatim>\<open>is_authenticated_with_ldap\<close>
  and \<^verbatim>\<open>errors\<close> when the loop ends.
\<close>

fun ldap_loop ::
  "ldap_lib \<Rightarrow> string \<Rightarrow> string \<Rightarrow> server_descriptor list \<Rightarrow> string list
     \<Rightarrow> (exn + bool \<times> string list) \<times> event list" where
  "ldap_loop lib name password [] errors = (Inr (False, errors), [])"
| "ldap_loop lib name password (server # rest) errors =
     (case ldap_attempt lib name password server of
        (Authenticated, evs) \<Rightarrow> (Inr (True, errors), evs)
      | (Failed m, evs) \<Rightarrow>
          (case ldap_loop lib name password rest (errors @ [m]) of
             (r, evs') \<Rightarrow> (r, evs @ evs'))
      | (Raised e, evs) \<Rightarrow> (Inl e, evs))"

text \<open>
  Lines 78 to 144: the function as written, before its decorator. \<open>None\<close> for an
  argument is the keyword's default. The body does not read the request.
\<close>

definition LDAP_authenticate_body ::
  "user_table \<Rightarrow> ldap_lib \<Rightarrow> server_descriptor list \<Rightarrow> string option \<Rightarrow> string option
     \<Rightarrow> (exn + user option) \<times> event list" where
  "LDAP_authenticate_body users lib LDAP_SERVERS name password =
     (if \<not> truthy name \<or> \<not> truthy password then (Inr None, [])
      else
        (case objects_get users name of
           Inl e \<Rightarrow> (Inl e, [DbGet name, Log WARNING (unknown_user_message (the name))])
         | Inr usr \<Rightarrow>
             (if \<not> is_active usr then
                (Inl (InactiveUserError (the name)),
                 [DbGet name, Log WARNING (inactive_user_message (the name))])
              else
                (case ldap_loop lib (the name) (the password) LDAP_SERVERS [] of
                   (Inl e, evs) \<Rightarrow> (Inl e, DbGet name # evs)
                 | (Inr (is_authenticated_with_ldap, errors), evs) \<Rightarrow>
                     (if is_authenticated_with_ldap then (Inr (Some usr), DbGet name # evs)
                      else (Inr None, DbGet name # evs @ map (Log WARNING) errors))))))"

text \<open>
  Lines 77 to 144: the method of the class, that is the function under
  \<^verbatim>\<open>method_decorator(sensitive_post_parameters('password'))\<close>.
\<close>

definition LDAP_authenticate ::
  "user_table \<Rightarrow> ldap_lib \<Rightarrow> server_descriptor list \<Rightarrow> request option \<Rightarrow> string option
     \<Rightarrow> string option \<Rightarrow> (exn + user option) \<times> event list" where
  "LDAP_authenticate users lib LDAP_SERVERS request name password =
     sensitive_post_parameters [''password'']
       (\<lambda>req. LDAP_authenticate_body users lib LDAP_SERVERS name password) request"

subsection \<open>\<^verbatim>\<open>RemoteUserAuthenticationBackend\<close>\<close>

text \<open>Line 25.\<close>

definition create_unknown_user :: bool where
  "create_unknown_user = False"

text \<open>Line 32: \<^verbatim>\<open>username.partition('@')[0]\<close>.\<close>

definition RemoteUser_clean_username :: "string \<Rightarrow> string" where
  "RemoteUser_clean_username name = takeWhile (\<lambda>c. c \<noteq> CHR ''@'') name"

text \<open>
  Modelled from the spec: the method the class inherits,
  \<^verbatim>\<open>RemoteUserBackend.authenticate\<close> of \<^verbatim>\<open>django.contrib.auth.backends\<close>
  (section 4: the backend "defers existence/activity checks to the generic backend it
  inherits from"). It reads the two members the subclass overrides. With \<^verbatim>\<open>create_unknown_user\<close> it calls \<^verbatim>\<open>get_or_create\<close>, which
  inserts a row for an unknown name; without, it only looks the name up. The user is
  returned when \<^verbatim>\<open>user_can_authenticate\<close> holds, that is when it is active. The
  result comes with the user table after the call.
\<close>

definition RemoteUserBackend_authenticate ::
  "bool \<Rightarrow> (string \<Rightarrow> string) \<Rightarrow> user_table \<Rightarrow> string option \<Rightarrow> user option \<times> user_table" where
  "RemoteUserBackend_authenticate create clean users remote_user =
     (if \<not> truthy remote_user then (None, users)
      else
        (let name = clean (the remote_user) in
         if create then
           (case users name of
              None \<Rightarrow>
                (Some \<lparr>username = name, is_active = True\<rparr>,
                 users(name \<mapsto> \<lparr>username = name, is_active = True\<rparr>))
            | Some usr \<Rightarrow> (if is_active usr then Some usr else None, users))
         else
           (case users name of
              None \<Rightarrow> (None, users)
            | Some usr \<Rightarrow> (if is_active usr then Some usr else None, users))))"

definition RemoteUser_authenticate :: "user_table \<Rightarrow> string option \<Rightarrow> user option \<times> user_table" where
  "RemoteUser_authenticate users remote_user =
     RemoteUserBackend_authenticate create_unknown_user RemoteUser_clean_username users remote_user"

subsection \<open>\<^verbatim>\<open>NginxKerberosAuthorizationHeaderAuthenticationBackend\<close>\<close>

text \<open>
  \<^verbatim>\<open>str.split()\<close> without argument: the words between runs of white space. A header
  value is a string of code points below 256, of which these are white space.
\<close>

definition isspace :: "char \<Rightarrow> bool" where
  "isspace c =
     (let n = (of_char c :: nat)
      in (9 \<le> n \<and> n \<le> 13) \<or> (28 \<le> n \<and> n \<le> 32) \<or> n = 133 \<or> n = 160)"

fun split_from :: "string \<Rightarrow> string \<Rightarrow> string list" where
  "split_from word [] = (if word = [] then [] else [word])"
| "split_from word (c # cs) =
     (if isspace c then (if word = [] then split_from [] cs else word # split_from [] cs)
      else split_from (word @ [c]) cs)"

definition str_split :: "string \<Rightarrow> string list" where
  "str_split s = split_from [] s"

text \<open>
  \<^verbatim>\<open>base64.b64decode\<close> of a \<^verbatim>\<open>str\<close>: the text must be ASCII
  (\<^verbatim>\<open>ValueError\<close> otherwise); then \<^verbatim>\<open>binascii.a2b_base64\<close> skips every character
  outside the alphabet, stops at the padding that completes a group of four, and raises
  \<^verbatim>\<open>binascii.Error\<close> when the input ends inside a group. The bits of a digit and of
  the rest of its predecessor do not overlap, so the shifts and ors are written with
  \<open>*\<close>, \<open>div\<close>, \<open>mod\<close> and \<open>+\<close>.
\<close>

definition b64_digit :: "char \<Rightarrow> nat option" where
  "b64_digit c =
     (let n = (of_char c :: nat)
      in if 65 \<le> n \<and> n \<le> 90 then Some (n - 65)
         else if 97 \<le> n \<and> n \<le> 122 then Some (n - 71)
         else if 48 \<le> n \<and> n \<le> 57 then Some (n + 4)
         else if n = 43 then Some 62
         else if n = 47 then Some 63
         else None)"

definition emit :: "nat \<Rightarrow> exn + string \<Rightarrow> exn + string" where
  "emit b r = (case r of Inl e \<Rightarrow> Inl e | Inr bs \<Rightarrow> Inr (char_of b # bs))"

fun a2b_base64 :: "nat \<Rightarrow> nat \<Rightarrow> nat \<Rightarrow> string \<Rightarrow> exn + string" where
  "a2b_base64 quad_pos leftchar pads [] = (if quad_pos = 0 then Inr [] else Inl BinasciiError)"
| "a2b_base64 quad_pos leftchar pads (c # cs) =
     (if c = CHR ''='' then
        (if 2 \<le> quad_pos \<and> 4 \<le> quad_pos + (pads + 1) then Inr []
         else if 2 \<le> quad_pos then a2b_base64 quad_pos leftchar (pads + 1) cs
         else a2b_base64 quad_pos leftchar pads cs)
      else
        (case b64_digit c of
           None \<Rightarrow> a2b_base64 quad_pos leftchar pads cs
         | Some v \<Rightarrow>
             (if quad_pos = 0 then a2b_base64 1 v 0 cs
              else if quad_pos = 1 then
                emit (leftchar * 4 + v div 16) (a2b_base64 2 (v mod 16) 0 cs)
              else if quad_pos = 2 then
                emit (leftchar * 16 + v div 4) (a2b_base64 3 (v mod 4) 0 cs)
              else emit (leftchar * 64 + v) (a2b_base64 0 0 0 cs))))"

definition b64decode :: "string \<Rightarrow> exn + string" where
  "b64decode s =
     (if list_ex (\<lambda>c. 128 \<le> (of_char c :: nat)) s then Inl ValueError else a2b_base64 0 0 0 s)"

text \<open>
  \<^verbatim>\<open>bytes.decode()\<close>: the bytes must be well-formed UTF-8
  (\<^verbatim>\<open>UnicodeDecodeError\<close> otherwise). The decoded text is kept in its UTF-8 form; a
  \<^verbatim>\<open>':'\<close> or \<^verbatim>\<open>'@'\<close> of the text is exactly a byte \<open>0x3A\<close> or \<open>0x40\<close> there.
\<close>

definition continuation :: "nat \<Rightarrow> bool" where
  "continuation b = (128 \<le> b \<and> b \<le> 191)"

fun utf8 :: "nat list \<Rightarrow> bool" where
  "utf8 [] = True"
| "utf8 [b] = (b < 128)"
| "utf8 [b, c] = (if b < 128 then utf8 [c] else 194 \<le> b \<and> b \<le> 223 \<and> continuation c)"
| "utf8 [b, c, d] =
     (if b < 128 then utf8 [c, d]
      else if 194 \<le> b \<and> b \<le> 223 then continuation c \<and> utf8 [d]
      else 224 \<le> b \<and> b \<le> 239 \<and> continuation c \<and> continuation d
           \<and> (if b = 224 then 160 \<le> c else True) \<and> (if b = 237 then c \<le> 159 else True))"
| "utf8 (b # c # d # e # rest) =
     (if b < 128 then utf8 (c # d # e # rest)
      else if 194 \<le> b \<and> b \<le> 223 then continuation c \<and> utf8 (d # e # rest)
      else if 224 \<le> b \<and> b \<le> 239 then
        continuation c \<and> continuation d \<and> (if b = 224 then 160 \<le> c else True) \<and> (if b = 237 then c \<le> 159 else True)
        \<and> utf8 (e # rest)
      else 240 \<le> b \<and> b \<le> 244 \<and> continuation c \<and> continuation d \<and> continuation e
           \<and> (if b = 240 then 144 \<le> c else True) \<and> (if b = 244 then c \<le> 143 else True) \<and> utf8 rest)"

definition decode :: "string \<Rightarrow> exn + string" where
  "decode bytes = (if utf8 (map of_char bytes) then Inr bytes else Inl UnicodeDecodeError)"

text \<open>Lines 59 to 71.\<close>

definition Nginx_clean_username :: "string option \<Rightarrow> exn + string option" where
  "Nginx_clean_username header =
     (if \<not> truthy header then Inr None
      else
        (let pieces = str_split (the header) in
         if length pieces \<noteq> 2 then Inr None
         else if pieces ! 0 \<noteq> ''Basic'' then Inr None
         else
           (case b64decode (pieces ! 1) of
              Inl e \<Rightarrow> Inl e
            | Inr bytes \<Rightarrow>
                (case decode bytes of
                   Inl e \<Rightarrow> Inl e
                 | Inr text \<Rightarrow> Inr (Some (takeWhile (\<lambda>c. c \<noteq> CHR '':'') text))))))"

text \<open>How an f-string prints a user name that may be \<^verbatim>\<open>None\<close>.\<close>

definition format_name :: "string option \<Rightarrow> string" where
  "format_name name = (case name of None \<Rightarrow> ''None'' | Some n \<Rightarrow> n)"

definition nginx_unknown_user_message :: "string \<Rightarrow> string" where
  "nginx_unknown_user_message name =
     ''Username '' @ name @ '' attempted to authenticate with Kerberos via Nginx, but that username does not exist in the NEMO database. The user was denied access.''"

definition nginx_inactive_user_message :: "string \<Rightarrow> string" where
  "nginx_inactive_user_message name =
     ''User '' @ name @ '' successfully authenticated with Kerberos via Nginx, but that user is marked inactive in the NEMO database. The user was denied access.''"

definition nginx_granted_message :: "string \<Rightarrow> string" where
  "nginx_granted_message name =
     ''User '' @ name @ '' successfully authenticated with Kerberos via Nginx and was granted access to NEMO.''"

text \<open>Lines 38 to 57.\<close>

definition Nginx_authenticate :: "user_table \<Rightarrow> request \<Rightarrow> (exn + user option) \<times> event list" where
  "Nginx_authenticate users req =
     (case Nginx_clean_username (META req ''HTTP_AUTHORIZATION'') of
        Inl e \<Rightarrow> (Inl e, [])
      | Inr name \<Rightarrow>
          (case objects_get users name of
             Inl e \<Rightarrow>
               (Inr None, [DbGet name, Log WARNING (nginx_unknown_user_message (format_name name))])
           | Inr usr \<Rightarrow>
               (if \<not> is_active usr then
                  (Inr None,
                   [DbGet name, Log WARNING (nginx_inactive_user_message (format_name name))])
                else
                  (Inr (Some usr),
                   [DbGet name, Log DEBUG (nginx_granted_message (format_name name))]))))"

subsection \<open>The site: settings and what the views call\<close>

text \<open>
  What a backend from outside this file answers to \<^verbatim>\<open>authenticate\<close>: it does not
  take a user name and a password, it returns a user or \<^verbatim>\<open>None\<close>, or it raises
  \<^verbatim>\<open>PermissionDenied\<close>.
\<close>

datatype backend_answer = NotApplicable | Answer "user option" | PermissionDenied

text \<open>
  \<^verbatim>\<open>settings.AUTHENTICATION_BACKENDS\<close> and \<^verbatim>\<open>settings.LDAP_SERVERS\<close>, the user
  table, the directory servers, and the functions of other modules the views call:
  \<^verbatim>\<open>get_media_file_contents\<close> (of \<^verbatim>\<open>NEMO.views.customization\<close>),
  \<^verbatim>\<open>reverse('landing')\<close>, whether \<^verbatim>\<open>resolve\<close> finds a view for a path (it raises
  otherwise), and the backends of other modules.
\<close>

record site =
  AUTHENTICATION_BACKENDS :: "string list"
  LDAP_SERVERS :: "server_descriptor list"
  users :: user_table
  ldap :: ldap_lib
  get_media_file_contents :: "string \<Rightarrow> string"
  landing :: string
  resolve :: "string \<Rightarrow> bool"
  other_backend :: "string \<Rightarrow> request \<Rightarrow> string \<Rightarrow> string \<Rightarrow> backend_answer"

definition REMOTE_USER_BACKEND :: string where
  "REMOTE_USER_BACKEND = ''NEMO.views.authentication.RemoteUserAuthenticationBackend''"

definition NGINX_BACKEND :: string where
  "NGINX_BACKEND =
     ''NEMO.views.authentication.NginxKerberosAuthorizationHeaderAuthenticationBackend''"

definition LDAP_BACKEND :: string where
  "LDAP_BACKEND = ''NEMO.views.authentication.LDAPAuthenticationBackend''"

definition REDIRECT_FIELD_NAME :: string where
  "REDIRECT_FIELD_NAME = ''next''"

text \<open>
  \<^verbatim>\<open>django.contrib.auth.authenticate(request, username=..., password=...)\<close>: the
  backends are asked in the order of the setting. A backend whose \<^verbatim>\<open>authenticate\<close>
  does not take these arguments is skipped (the remote-user backend takes
  \<^verbatim>\<open>remote_user\<close>); \<^verbatim>\<open>None\<close> passes to the next backend; a user ends the search;
  \<^verbatim>\<open>PermissionDenied\<close> ends it without a user; any other exception leaves the call.
\<close>

fun authenticate ::
  "site \<Rightarrow> request \<Rightarrow> string \<Rightarrow> string \<Rightarrow> string list \<Rightarrow> (exn + user option) \<times> event list" where
  "authenticate st req name password [] = (Inr None, [])"
| "authenticate st req name password (backend # rest) =
     (if backend = REMOTE_USER_BACKEND then authenticate st req name password rest
      else if backend = NGINX_BACKEND \<or> backend = LDAP_BACKEND then
        (case (if backend = NGINX_BACKEND then Nginx_authenticate (users st) req
               else LDAP_authenticate (users st) (ldap st) (LDAP_SERVERS st) (Some req)
                      (Some name) (Some password)) of
           (Inl e, evs) \<Rightarrow> (Inl e, evs)
         | (Inr (Some usr), evs) \<Rightarrow> (Inr (Some usr), evs)
         | (Inr None, evs) \<Rightarrow>
             (case authenticate st req name password rest of (r, evs') \<Rightarrow> (r, evs @ evs')))
      else
        (case other_backend st backend req name password of
           NotApplicable \<Rightarrow> authenticate st req name password rest
         | Answer None \<Rightarrow> authenticate st req name password rest
         | Answer (Some usr) \<Rightarrow> (Inr (Some usr), [])
         | PermissionDenied \<Rightarrow> (Inr None, [])))"

subsection \<open>The views\<close>

datatype context_value = Text string | Flag bool

datatype response =
    HttpResponseRedirect string
  | Render string "(string \<times> context_value) list"
  | HttpResponseNotAllowed "string list"

text \<open>Lines 192 to 194.\<close>

definition authorization_failed :: "site \<Rightarrow> response" where
  "authorization_failed st =
     Render ''authorization_failed.html''
       [(''authorization_failed'', Text (get_media_file_contents st ''authorization_failed.html''))]"

text \<open>Lines 160 to 165 and 182 to 183: the login page and its dictionary.\<close>

definition login_page :: "site \<Rightarrow> bool \<Rightarrow> response" where
  "login_page st incorrect =
     Render ''login.html''
       [(''login_banner'', Text (get_media_file_contents st ''login_banner.html'')),
        (''user_name_or_password_incorrect'', Flag incorrect)]"

text \<open>
  Lines 176 to 180: the page to go to after a login. The bare \<^verbatim>\<open>except\<close> takes
  both the missing parameter and the path that \<^verbatim>\<open>resolve\<close> refuses.
\<close>

definition next_page :: "site \<Rightarrow> request \<Rightarrow> string" where
  "next_page st req =
     (case GET req REDIRECT_FIELD_NAME of
        None \<Rightarrow> landing st
      | Some target \<Rightarrow> (if resolve st target then target else landing st))"

text \<open>Lines 166 and 167: a field of the posted form, empty when absent.\<close>

definition posted :: "request \<Rightarrow> string \<Rightarrow> string" where
  "posted req key = (case POST req key of Some v \<Rightarrow> v | None \<Rightarrow> [])"

text \<open>Lines 160 to 183.\<close>

definition login_form :: "site \<Rightarrow> request \<Rightarrow> (exn + response) \<times> event list" where
  "login_form st req =
     (if request_method req = ''GET'' then (Inr (login_page st False), [])
      else
        (case authenticate st req (posted req ''username'') (posted req ''password'')
                (AUTHENTICATION_BACKENDS st) of
           (Inl DoesNotExist, evs) \<Rightarrow> (Inr (authorization_failed st), evs)
         | (Inl (InactiveUserError n), evs) \<Rightarrow> (Inr (authorization_failed st), evs)
         | (Inl e, evs) \<Rightarrow> (Inl e, evs)
         | (Inr (Some usr), evs) \<Rightarrow>
             (Inr (HttpResponseRedirect (next_page st req)), evs @ [SessionLogin usr])
         | (Inr None, evs) \<Rightarrow> (Inr (login_page st True), evs)))"

text \<open>Lines 149 to 183: the view as written, before its decorators.\<close>

definition login_user_body :: "site \<Rightarrow> request \<Rightarrow> (exn + response) \<times> event list" where
  "login_user_body st req =
     (if REMOTE_USER_BACKEND \<in> set (AUTHENTICATION_BACKENDS st)
         \<or> NGINX_BACKEND \<in> set (AUTHENTICATION_BACKENDS st) then
        (if user_is_authenticated req then (Inr (HttpResponseRedirect (landing st)), [])
         else if length (filter (\<lambda>backend. backend \<notin> set [REMOTE_USER_BACKEND, NGINX_BACKEND])
                          (AUTHENTICATION_BACKENDS st)) = 0 then
           (Inr (authorization_failed st), [])
         else login_form st req)
      else login_form st req)"

text \<open>
  Lines 147 to 183: the view under its two decorators. \<^verbatim>\<open>require_http_methods\<close>, the
  outer one, admits \<^verbatim>\<open>GET\<close> and \<^verbatim>\<open>POST\<close> only; \<^verbatim>\<open>sensitive_post_parameters\<close> then
  marks the password. A view is always called with a request.
\<close>

definition login_user :: "site \<Rightarrow> request \<Rightarrow> (exn + response) \<times> event list" where
  "login_user st req =
     (if request_method req \<noteq> ''GET'' \<and> request_method req \<noteq> ''POST'' then
        (Inr (HttpResponseNotAllowed [''GET'', ''POST'']), [])
      else sensitive_post_parameters [''password''] (login_user_body st) (Some req))"

subsection \<open>Migration 0040\<close>

datatype field =
    is_BooleanField: BooleanField (default_value: bool) (help_text: string)
  | OtherField string

datatype operation = AddField string string field | AlterField string string field

record migration =
  dependencies :: "(string \<times> string) list"
  operations :: "operation list"

definition hide_from_staff_field :: field where
  "hide_from_staff_field =
     BooleanField False
       ''Hides this choice from normal users, staff and technicians. When checked, only facility managers and super-users can see the choice''"

definition hide_from_users_field :: field where
  "hide_from_users_field =
     BooleanField False
       ''Hides this choice from normal users. When checked, only staff, technicians, facility managers and super-users can see the choice''"

definition Migration :: migration where
  "Migration =
     \<lparr>dependencies = [(''NEMO'', ''0039_version_4_1_0'')],
      operations =
        [AddField ''landingpagechoice'' ''hide_from_staff'' hide_from_staff_field,
         AlterField ''landingpagechoice'' ''hide_from_users'' hide_from_users_field]\<rparr>"

text \<open>
  The models of the application, each with its fields by name, and what the migration
  framework does with an operation: \<^verbatim>\<open>AddField\<close> puts a new field into an existing
  model, \<^verbatim>\<open>AlterField\<close> replaces an existing field; each fails (\<open>None\<close>) on a model
  that does not exist, on adding a field that does, and on altering a field that does not.
\<close>

type_synonym models = "string \<rightharpoonup> (string \<rightharpoonup> field)"

fun apply_operation :: "operation \<Rightarrow> models \<Rightarrow> models option" where
  "apply_operation (AddField model_name name f) ms =
     (case ms model_name of
        None \<Rightarrow> None
      | Some fs \<Rightarrow>
          (case fs name of
             None \<Rightarrow> Some (ms(model_name \<mapsto> fs(name \<mapsto> f)))
           | Some _ \<Rightarrow> None))"
| "apply_operation (AlterField model_name name f) ms =
     (case ms model_name of
        None \<Rightarrow> None
      | Some fs \<Rightarrow>
          (case fs name of
             None \<Rightarrow> None
           | Some _ \<Rightarrow> Some (ms(model_name \<mapsto> fs(name \<mapsto> f)))))"

fun apply_operations :: "operation list \<Rightarrow> models \<Rightarrow> models option" where
  "apply_operations [] ms = Some ms"
| "apply_operations (step # steps) ms =
     (case apply_operation step ms of None \<Rightarrow> None | Some ms' \<Rightarrow> apply_operations steps ms')"


text \<open>The field of a model, by the two names.\<close>

definition field_of :: "models \<Rightarrow> string \<Rightarrow> string \<Rightarrow> field option" where
  "field_of ms model_name name = (case ms model_name of None \<Rightarrow> None | Some fs \<Rightarrow> fs name)"

subsection \<open>Notions the properties are stated with\<close>

text \<open>What one server's iteration did, and how it ended.\<close>

definition attempt_events ::
  "ldap_lib \<Rightarrow> string \<Rightarrow> string \<Rightarrow> server_descriptor \<Rightarrow> event list" where
  "attempt_events lib name password server = snd (ldap_attempt lib name password server)"

definition attempt_message :: "ldap_lib \<Rightarrow> string \<Rightarrow> string \<Rightarrow> server_descriptor \<Rightarrow> string" where
  "attempt_message lib name password server =
     message (fst (ldap_attempt lib name password server))"

text \<open>The server accepts the user: the iteration reaches \<^verbatim>\<open>break\<close>.\<close>

definition accepts :: "ldap_lib \<Rightarrow> string \<Rightarrow> string \<Rightarrow> server_descriptor \<Rightarrow> bool" where
  "accepts lib name password server =
     (fst (ldap_attempt lib name password server) = Authenticated)"

text \<open>
  The server does not accept the user: the iteration appends a message to
  \<^verbatim>\<open>errors\<close> and the loop goes on.
\<close>

definition rejects :: "ldap_lib \<Rightarrow> string \<Rightarrow> string \<Rightarrow> server_descriptor \<Rightarrow> bool" where
  "rejects lib name password server = is_Failed (fst (ldap_attempt lib name password server))"

text \<open>
  The search for the user on this server is made and returns no matching entry: the
  server is configured for a search, the server object and the search bind succeed,
  and \<^verbatim>\<open>search\<close> is false or its first entry lacks the attribute.
\<close>

definition lookup_finds_no_entry :: "ldap_lib \<Rightarrow> string \<Rightarrow> server_descriptor \<Rightarrow> bool" where
  "lookup_finds_no_entry lib name server =
     (case (url server, base_dn server) of
        (Some u, Some base) \<Rightarrow>
          (if bind_as_authentication_of server then False
           else
             Tls lib (certificate server) = None
             \<and> Server lib (server_object server u) = None
             \<and> Connection lib (server_object server u) (search_bind_username server)
                 (bind_password server) (auto_bind_of server) (search_authentication server) = None
             \<and> (case search lib (server_object server u) base (search_filter server name)
                        (search_attribute_of server) of
                  Inl e \<Rightarrow> False
                | Inr (found, response) \<Rightarrow>
                    (if found then
                       (case response of
                          [] \<Rightarrow> False
                        | first # _ \<Rightarrow> search_attribute_of server \<notin> set (attributes first))
                     else True)))
      | _ \<Rightarrow> False)"

text \<open>The message line 119 appends for the server.\<close>

definition lookup_failure_message :: "string \<Rightarrow> server_descriptor \<Rightarrow> string" where
  "lookup_failure_message name server =
     search_failure name server (the (url server)) (the (base_dn server))"

text \<open>The log lines among the effects.\<close>

fun log_lines :: "event list \<Rightarrow> (level \<times> string) list" where
  "log_lines [] = []"
| "log_lines (Log l m # evs) = (l, m) # log_lines evs"
| "log_lines (_ # evs) = log_lines evs"

text \<open>The sessions established among the effects (\<^verbatim>\<open>login(request, user)\<close>).\<close>

fun logins :: "event list \<Rightarrow> user list" where
  "logins [] = []"
| "logins (SessionLogin usr # evs) = usr # logins evs"
| "logins (_ # evs) = logins evs"

text \<open>
  A login attempt against the LDAP backend alone: the form is posted with a user name
  and a password, both not empty, and the LDAP backend is the one configured backend.
\<close>

definition ldap_login_attempt :: "site \<Rightarrow> request \<Rightarrow> string \<Rightarrow> string \<Rightarrow> bool" where
  "ldap_login_attempt st req name password =
     (request_method req = ''POST'' \<and> AUTHENTICATION_BACKENDS st = [LDAP_BACKEND]
      \<and> posted req ''username'' = name \<and> posted req ''password'' = password
      \<and> name \<noteq> [] \<and> password \<noteq> [])"




subsection \<open>A small site, for the concrete cases\<close>

definition alice :: user where
  "alice = \<lparr>username = ''alice'', is_active = True\<rparr>"

definition bob :: user where
  "bob = \<lparr>username = ''bob'', is_active = False\<rparr>"

definition example_users :: user_table where
  "example_users = [''alice'' \<mapsto> alice, ''bob'' \<mapsto> bob]"

definition plain_server :: "string \<Rightarrow> server_descriptor" where
  "plain_server u =
     \<lparr>url = Some u, port = None, use_ssl = None, bind_as_authentication = None, domain = None,
      certificate = None, bind_username = None, bind_password = None,
      search_username_field = None, search_attribute = None, base_dn = None\<rparr>"

text \<open>A server that is searched first, and one the user binds to directly.\<close>

definition server_one :: server_descriptor where
  "server_one =
     (plain_server ''ldaps://one.example.org'')
       \<lparr>bind_as_authentication := Some False, base_dn := Some ''dc=example,dc=org''\<rparr>"

definition server_two :: server_descriptor where
  "server_two = plain_server ''ldaps://two.example.org''"



text \<open>
  The directory: no connection to the server that is down can be opened; on the other
  servers every search bind succeeds, no search finds an entry, and only the second
  server accepts \<open>alice\<close> with the password \<open>secret\<close>.
\<close>

definition example_ldap :: ldap_lib where
  "example_ldap =
     \<lparr>Tls = (\<lambda>cert. None),
      Server = (\<lambda>s. None),
      Connection =
        (\<lambda>s bind_user password ab auth.
           if host s = ''ldaps://down.example.org'' then
             Some (LDAPException ''socket connection error'')
           else if auth = ANONYMOUS then None
           else if host s = ''ldaps://two.example.org'' \<and> bind_user = Some ''alice''
                   \<and> password = Some ''secret'' then None
           else Some (LDAPBindError ''invalidCredentials'')),
      search = (\<lambda>s base filter_string attr. Inr (False, []))\<rparr>"

definition example_site :: "string list \<Rightarrow> site" where
  "example_site backends =
     \<lparr>AUTHENTICATION_BACKENDS = backends,
      LDAP_SERVERS = [server_one, server_two],
      users = example_users,
      ldap = example_ldap,
      get_media_file_contents = (\<lambda>name. ''contents of '' @ name),
      landing = ''/'',
      resolve = (\<lambda>path. path = ''/calendar/''),
      other_backend = (\<lambda>backend req name password. NotApplicable)\<rparr>"

definition example_request :: "string \<Rightarrow> string \<Rightarrow> string \<Rightarrow> (string \<rightharpoonup> string) \<Rightarrow> request" where
  "example_request m name password query =
     \<lparr>request_method = m, META = Map.empty, GET = query,
      POST = [''username'' \<mapsto> name, ''password'' \<mapsto> password],
      user_is_authenticated = False\<rparr>"


text \<open>The request of a login as \<open>alice\<close>.\<close>

definition example_post :: request where
  "example_post = example_request ''POST'' ''alice'' ''secret'' Map.empty"

text \<open>A request that carries an \<^verbatim>\<open>Authorization\<close> header.\<close>

definition header_request :: "string \<Rightarrow> request" where
  "header_request h =
     (example_request ''GET'' [] [] Map.empty)\<lparr>META := [''HTTP_AUTHORIZATION'' \<mapsto> h]\<rparr>"

definition example_models :: models where
  "example_models =
     [''landingpagechoice'' \<mapsto>
        [''name'' \<mapsto> OtherField ''CharField'',
         ''hide_from_users'' \<mapsto> BooleanField False ''Hides this choice from normal users''],
      ''user'' \<mapsto> [''username'' \<mapsto> OtherField ''CharField'']]"


section \<open>Properties\<close>

subsection \<open>Unfolding the definitions, and the concrete servers\<close>

lemmas example_defs =
  example_users_def alice_def bob_def plain_server_def server_one_def server_two_def
  example_ldap_def

lemmas attempt_defs =
  ldap_attempt_def search_for_user_def bind_as_user_def read_response_def
  handle_ldap_exception_def server_object_def auto_bind_of_def direct_bind_user_def
  search_bind_username_def search_authentication_def search_username_field_of_def
  search_attribute_of_def search_filter_def search_failure_def port_of_def use_ssl_of_def
  bind_as_authentication_of_def truthy_def with_domain_def Let_def

lemma server_one_rejects: "rejects example_ldap ''alice'' pw server_one"
  by (simp add: rejects_def attempt_defs example_defs)

lemma server_two_accepts: "accepts example_ldap ''alice'' ''secret'' server_two"
  by (simp add: accepts_def attempt_defs example_defs)

lemma server_two_rejects: "rejects example_ldap ''alice'' ''wrong'' server_two"
  by (simp add: rejects_def attempt_defs example_defs)

subsection \<open>The loop over the servers\<close>

lemma ldap_loop_rejected_prefix:
  "\<forall>x\<in>set pre. rejects lib name password x \<Longrightarrow>
   ldap_loop lib name password (pre @ rest) errors =
     (case ldap_loop lib name password rest (errors @ map (attempt_message lib name password) pre) of
        (r, evs) \<Rightarrow> (r, concat (map (attempt_events lib name password) pre) @ evs))"
proof (induction pre arbitrary: errors)
  case Nil
  then show ?case by simp
next
  case (Cons x pre)
  from Cons.prems have rx: "rejects lib name password x"
    and rest: "\<forall>y\<in>set pre. rejects lib name password y" by simp_all
  obtain a evs where att: "ldap_attempt lib name password x = (a, evs)"
    by (cases "ldap_attempt lib name password x")
  with rx obtain m where a: "a = Failed m"
    by (cases a) (simp_all add: rejects_def)
  show ?case
    using Cons.IH [OF rest, of "errors @ [m]"] att a
    by (simp add: attempt_message_def attempt_events_def split: prod.splits)
qed

lemma ldap_loop_accepted:
  "accepts lib name password server \<Longrightarrow>
   ldap_loop lib name password (server # post) errors =
     (Inr (True, errors), attempt_events lib name password server)"
  by (cases "ldap_attempt lib name password server") (simp add: accepts_def attempt_events_def)

lemma ldap_loop_all_rejected:
  assumes "\<forall>x\<in>set servers. rejects lib name password x"
  shows "ldap_loop lib name password servers errors =
     (Inr (False, errors @ map (attempt_message lib name password) servers),
      concat (map (attempt_events lib name password) servers))"
  using ldap_loop_rejected_prefix [OF assms, of "[]" errors] by simp

lemma ldap_loop_first_accepted:
  assumes "\<forall>x\<in>set pre. rejects lib name password x" and "accepts lib name password server"
  shows "ldap_loop lib name password (pre @ server # post) errors =
     (Inr (True, errors @ map (attempt_message lib name password) pre),
      concat (map (attempt_events lib name password) (pre @ [server])))"
  using ldap_loop_rejected_prefix [OF assms(1), of "server # post" errors]
    ldap_loop_accepted [OF assms(2)]
  by simp

lemma LDAP_authenticate_request:
  "LDAP_authenticate table lib servers (Some req) name password =
     (case LDAP_authenticate_body table lib servers name password of
        (r, evs) \<Rightarrow> (r, SensitivePostParameters [''password''] # evs))"
  by (simp add: LDAP_authenticate_def sensitive_post_parameters_def)

lemma LDAP_authenticate_loop:
  assumes "name \<noteq> []" and "password \<noteq> []" and "table name = Some usr" and "is_active usr"
  shows "LDAP_authenticate table lib servers (Some req) (Some name) (Some password) =
     (case ldap_loop lib name password servers [] of
        (Inl e, evs) \<Rightarrow> (Inl e, SensitivePostParameters [''password''] # DbGet (Some name) # evs)
      | (Inr (ok, errors), evs) \<Rightarrow>
          (if ok then
             (Inr (Some usr), SensitivePostParameters [''password''] # DbGet (Some name) # evs)
           else
             (Inr None,
              SensitivePostParameters [''password''] # DbGet (Some name) # evs
                @ map (Log WARNING) errors)))"
  using assms
  by (simp add: LDAP_authenticate_request LDAP_authenticate_body_def truthy_def objects_get_def
      split: prod.splits sum.splits)

subsection \<open>The LDAP backend\<close>

text \<open>
  Claim C8, as the code has it. When the method is called with a request and the user
  name or the password is missing or empty, \<^verbatim>\<open>LDAPAuthenticationBackend.authenticate\<close>
  returns \<^verbatim>\<open>None\<close> at once: no exception leaves it, and its one effect is the
  decorator's marking of the password on the request, so the user table is not read and
  no directory server is contacted.
\<close>

theorem authenticate_without_credentials:
  "name = None \<or> name = Some [] \<or> password = None \<or> password = Some [] \<Longrightarrow>
   LDAP_authenticate table lib servers (Some req) name password =
     (Inr None, [SensitivePostParameters [''password'']])"
  by (auto simp add: LDAP_authenticate_request LDAP_authenticate_body_def truthy_def)

theorem authenticate_without_credentials_witness:
  "(Some ''alice'' = None \<or> Some ''alice'' = Some [] \<or> Some [] = None \<or> Some [] = Some ([] :: string))
   \<and> LDAP_authenticate example_users example_ldap [server_one, server_two] (Some example_post)
        (Some ''alice'') (Some []) = (Inr None, [SensitivePostParameters [''password'']])"
proof -
  have h: "Some ''alice'' = None \<or> Some ''alice'' = Some []
      \<or> Some [] = None \<or> Some [] = Some ([] :: string)"
    by simp
  show ?thesis
    using h authenticate_without_credentials [OF h, of example_users example_ldap
        "[server_one, server_two]" example_post]
    by blast
qed

text \<open>
  Claim C8 as stated fails: called without a request, as
  \<^verbatim>\<open>django.contrib.auth.authenticate\<close> calls a backend when it is given none, the method
  raises \<^verbatim>\<open>AssertionError\<close> from its decorator, also when the password is empty.
\<close>

theorem authenticate_without_request_counterexample:
  "LDAP_authenticate example_users example_ldap [server_one, server_two] None (Some ''alice'')
     (Some []) = (Inl AssertionError, [])"
  by (simp add: LDAP_authenticate_def sensitive_post_parameters_def)

text \<open>
  Claim C1. For a call with a request, by a user who is known and active and gave a user
  name and a password, the servers are tried in the configured order. When the servers before one all
  reject the user and that one accepts, the backend returns the user object and its
  effects are the decorator's marking and the reading of the user followed by the iterations of exactly these
  servers, in order: no server after the accepting one is tried. When every server
  rejects the user, the backend returns \<^verbatim>\<open>None\<close>, after the iterations of all
  servers in order and the logging of the collected messages.
\<close>

theorem first_accepting_server_wins:
  assumes "name \<noteq> []" and "password \<noteq> []" and "table name = Some usr" and "is_active usr"
  shows
    "(servers = pre @ server # post \<and> (\<forall>x\<in>set pre. rejects lib name password x)
        \<and> accepts lib name password server
      \<longrightarrow> LDAP_authenticate table lib servers (Some req) (Some name) (Some password) =
            (Inr (Some usr),
             SensitivePostParameters [''password''] # DbGet (Some name) # concat (map (attempt_events lib name password) (pre @ [server]))))
     \<and> ((\<forall>x\<in>set servers. rejects lib name password x)
      \<longrightarrow> LDAP_authenticate table lib servers (Some req) (Some name) (Some password) =
            (Inr None,
             SensitivePostParameters [''password''] # DbGet (Some name) # concat (map (attempt_events lib name password) servers)
               @ map (Log WARNING) (map (attempt_message lib name password) servers)))"
proof (intro conjI impI)
  assume h: "servers = pre @ server # post \<and> (\<forall>x\<in>set pre. rejects lib name password x)
        \<and> accepts lib name password server"
  then have "ldap_loop lib name password servers [] =
     (Inr (True, map (attempt_message lib name password) pre),
      concat (map (attempt_events lib name password) (pre @ [server])))"
    using ldap_loop_first_accepted [of pre lib name password server post "[]"] by simp
  then show "LDAP_authenticate table lib servers (Some req) (Some name) (Some password) =
            (Inr (Some usr),
             SensitivePostParameters [''password''] # DbGet (Some name) # concat (map (attempt_events lib name password) (pre @ [server])))"
    using assms by (simp add: LDAP_authenticate_loop)
next
  assume "\<forall>x\<in>set servers. rejects lib name password x"
  then have "ldap_loop lib name password servers [] =
     (Inr (False, map (attempt_message lib name password) servers),
      concat (map (attempt_events lib name password) servers))"
    using ldap_loop_all_rejected [of servers lib name password "[]"] by simp
  then show "LDAP_authenticate table lib servers (Some req) (Some name) (Some password) =
            (Inr None,
             SensitivePostParameters [''password''] # DbGet (Some name) # concat (map (attempt_events lib name password) servers)
               @ map (Log WARNING) (map (attempt_message lib name password) servers))"
    using assms by (simp add: LDAP_authenticate_loop)
qed

theorem first_accepting_server_wins_witness:
  "(''alice'' \<noteq> [] \<and> ''secret'' \<noteq> [] \<and> ''wrong'' \<noteq> []
    \<and> example_users ''alice'' = Some alice \<and> is_active alice
    \<and> rejects example_ldap ''alice'' ''secret'' server_one
    \<and> accepts example_ldap ''alice'' ''secret'' server_two
    \<and> rejects example_ldap ''alice'' ''wrong'' server_one
    \<and> rejects example_ldap ''alice'' ''wrong'' server_two)
   \<and> LDAP_authenticate example_users example_ldap [server_one, server_two] (Some example_post) (Some ''alice'')
        (Some ''secret'') =
       (Inr (Some alice),
        SensitivePostParameters [''password''] # DbGet (Some ''alice'')
          # concat (map (attempt_events example_ldap ''alice'' ''secret'')
                     ([server_one] @ [server_two])))
   \<and> LDAP_authenticate example_users example_ldap [server_one, server_two] (Some example_post) (Some ''alice'')
        (Some ''wrong'') =
       (Inr None,
        SensitivePostParameters [''password''] # DbGet (Some ''alice'')
          # concat (map (attempt_events example_ldap ''alice'' ''wrong'')
                     [server_one, server_two])
          @ map (Log WARNING)
              (map (attempt_message example_ldap ''alice'' ''wrong'') [server_one, server_two]))"
proof -
  have a: "''alice'' \<noteq> []" and s: "''secret'' \<noteq> []" and w: "''wrong'' \<noteq> []"
    by simp_all
  have u: "example_users ''alice'' = Some alice"
    by (simp add: example_users_def)
  have act: "is_active alice"
    by (simp add: alice_def)
  have 1: "[server_one, server_two] = [server_one] @ server_two # []
      \<and> (\<forall>x\<in>set [server_one]. rejects example_ldap ''alice'' ''secret'' x)
      \<and> accepts example_ldap ''alice'' ''secret'' server_two"
    using server_one_rejects server_two_accepts by simp
  have 2: "\<forall>x\<in>set [server_one, server_two]. rejects example_ldap ''alice'' ''wrong'' x"
    using server_one_rejects server_two_rejects by simp
  note A = first_accepting_server_wins [of "''alice''" "''secret''" example_users alice
      "[server_one, server_two]" "[server_one]" server_two "[]" example_ldap example_post, OF a s u act]
  note B = first_accepting_server_wins [of "''alice''" "''wrong''" example_users alice
      "[server_one, server_two]" "[]" server_two "[]" example_ldap example_post, OF a w u act]
  from A 1 have A': "LDAP_authenticate example_users example_ldap [server_one, server_two]
        (Some example_post) (Some ''alice'') (Some ''secret'') =
       (Inr (Some alice),
        SensitivePostParameters [''password''] # DbGet (Some ''alice'')
          # concat (map (attempt_events example_ldap ''alice'' ''secret'')
                     ([server_one] @ [server_two])))"
    by blast
  from B 2 have B': "LDAP_authenticate example_users example_ldap [server_one, server_two]
        (Some example_post) (Some ''alice'') (Some ''wrong'') =
       (Inr None,
        SensitivePostParameters [''password''] # DbGet (Some ''alice'')
          # concat (map (attempt_events example_ldap ''alice'' ''wrong'')
                     [server_one, server_two])
          @ map (Log WARNING)
              (map (attempt_message example_ldap ''alice'' ''wrong'') [server_one, server_two]))"
    by blast
  show ?thesis
    using a s w u act server_one_rejects server_two_accepts server_two_rejects A' B'
    by blast
qed


subsection \<open>Log lines of the LDAP backend\<close>

lemma log_lines_append: "log_lines (xs @ ys) = log_lines xs @ log_lines ys"
  by (induction xs rule: log_lines.induct) simp_all

lemma log_lines_concat: "log_lines (concat xss) = concat (map log_lines xss)"
  by (induction xss) (simp_all add: log_lines_append)

lemma log_lines_warnings: "log_lines (map (Log WARNING) ms) = map (Pair WARNING) ms"
  by (induction ms) simp_all

lemma bind_as_user_log:
  "bind_as_user lib name password server u d = (a, evs) \<Longrightarrow>
   log_lines evs = (if a = Authenticated then [(DEBUG, authenticated_message name u)] else [])"
  by (auto simp add: bind_as_user_def handle_ldap_exception_def Let_def
      split: option.splits ldap_exc.splits)

lemma read_response_log:
  "read_response m attr s found response done = (r, evs) \<Longrightarrow> log_lines done = [] \<Longrightarrow>
   log_lines evs = [] \<and> r \<noteq> Inl Authenticated"
  by (auto simp add: read_response_def log_lines_append split: if_splits list.splits option.splits)

lemma search_for_user_log:
  "search_for_user lib name server u = (r, evs) \<Longrightarrow>
   log_lines evs = [] \<and> r \<noteq> Inl Authenticated"
  by (auto simp add: search_for_user_def handle_ldap_exception_def Let_def
      split: option.splits ldap_exc.splits sum.splits prod.splits
      dest!: read_response_log)

lemma attempt_log:
  "log_lines (attempt_events lib name password server) =
     (if accepts lib name password server
      then [(DEBUG, authenticated_message name (the (url server)))] else [])"
proof -
  show ?thesis
    unfolding attempt_events_def accepts_def ldap_attempt_def
    by (auto simp add: handle_ldap_exception_def Let_def log_lines_append
        split: option.splits ldap_exc.splits sum.splits prod.splits
        dest!: search_for_user_log bind_as_user_log)
qed

lemma rejects_not_accepts: "rejects lib name password server \<Longrightarrow> \<not> accepts lib name password server"
  by (auto simp add: rejects_def accepts_def)

lemma rejected_servers_log:
  "\<forall>x\<in>set servers. rejects lib name password x \<Longrightarrow>
   log_lines (concat (map (attempt_events lib name password) servers)) = []"
  by (induction servers) (simp_all add: log_lines_append attempt_log rejects_not_accepts)

lemma lookup_finds_no_entry_attempt:
  assumes "lookup_finds_no_entry lib name server"
  shows "fst (ldap_attempt lib name password server) = Failed (lookup_failure_message name server)"
  using assms
  unfolding lookup_finds_no_entry_def lookup_failure_message_def ldap_attempt_def
    search_for_user_def read_response_def
  by (auto simp add: Let_def split: option.splits sum.splits list.splits if_splits)

lemma lookup_finds_no_entry_rejects:
  "lookup_finds_no_entry lib name server \<Longrightarrow> rejects lib name password server"
  by (simp add: rejects_def lookup_finds_no_entry_attempt)

lemma lookup_finds_no_entry_message:
  "lookup_finds_no_entry lib name server \<Longrightarrow>
   attempt_message lib name password server = lookup_failure_message name server"
  by (simp add: attempt_message_def lookup_finds_no_entry_attempt)

lemma warning_logged:
  "m \<in> set ms \<Longrightarrow> (WARNING, m) \<in> set (log_lines (evs @ map (Log WARNING) ms))"
  by (simp add: log_lines_append log_lines_warnings)

text \<open>
  A server accepts the user exactly when the bind as the user succeeds: for a server
  the user binds to directly, and as a consequence of accepting for every server.
\<close>

lemma bind_as_user_accepted:
  "bind_as_user lib name password server u d = (Authenticated, evs) \<Longrightarrow>
   Connection lib (server_object server u) (Some d) (Some password) (auto_bind_of server) SIMPLE
     = None"
  by (auto simp add: bind_as_user_def handle_ldap_exception_def Let_def
      split: option.splits ldap_exc.splits)

lemma accepts_user_bind:
  assumes "accepts lib name password server"
  shows "\<exists>u d. url server = Some u
     \<and> Connection lib (server_object server u) (Some d) (Some password) (auto_bind_of server)
           SIMPLE = None"
  using assms
  unfolding accepts_def ldap_attempt_def
  by (auto simp add: handle_ldap_exception_def Let_def
      split: option.splits ldap_exc.splits sum.splits prod.splits if_splits
      dest!: search_for_user_log bind_as_user_accepted)

lemma accepts_direct_bind:
  assumes "bind_as_authentication_of server"
  shows "accepts lib name password server =
     (case url server of
        None \<Rightarrow> False
      | Some u \<Rightarrow>
          Tls lib (certificate server) = None \<and> Server lib (server_object server u) = None
          \<and> Connection lib (server_object server u) (Some (direct_bind_user server name))
                (Some password) (auto_bind_of server) SIMPLE = None)"
  using assms
  unfolding accepts_def ldap_attempt_def bind_as_user_def
  by (auto simp add: handle_ldap_exception_def Let_def
      split: option.splits ldap_exc.splits)

text \<open>
  Claim C3, as the code has it, for a call with a request. When the loop reaches a
  server whose search for the user
  returns no matching entry, the iteration appends the message of line 119 to
  \<^verbatim>\<open>errors\<close> and the loop goes on with the servers after it. The message is
  written to the log, as a warning, when no server of the list accepts the user. When a
  later server accepts the user, the collected messages are dropped: the only log line
  of the call is the debug line of the accepting server.
\<close>

theorem failed_lookup_is_collected:
  assumes "\<forall>x\<in>set pre. rejects lib name password x"
    and "lookup_finds_no_entry lib name server"
  shows
    "ldap_loop lib name password (pre @ server # post) [] =
       (case ldap_loop lib name password post
               (map (attempt_message lib name password) pre
                  @ [lookup_failure_message name server]) of
          (r, evs) \<Rightarrow> (r, concat (map (attempt_events lib name password) (pre @ [server])) @ evs))
     \<and> (name \<noteq> [] \<and> password \<noteq> [] \<and> table name = Some usr \<and> is_active usr
          \<and> (\<forall>x\<in>set post. rejects lib name password x)
        \<longrightarrow> fst (LDAP_authenticate table lib (pre @ server # post) (Some req) (Some name) (Some password))
              = Inr None
            \<and> (WARNING, lookup_failure_message name server)
                \<in> set (log_lines (snd (LDAP_authenticate table lib (pre @ server # post)
                                          (Some req) (Some name) (Some password)))))
     \<and> (name \<noteq> [] \<and> password \<noteq> [] \<and> table name = Some usr \<and> is_active usr
          \<and> post = mid @ winner # rest \<and> (\<forall>x\<in>set mid. rejects lib name password x)
          \<and> accepts lib name password winner
        \<longrightarrow> fst (LDAP_authenticate table lib (pre @ server # post) (Some req) (Some name) (Some password))
              = Inr (Some usr)
            \<and> log_lines (snd (LDAP_authenticate table lib (pre @ server # post)
                                (Some req) (Some name) (Some password)))
              = [(DEBUG, authenticated_message name (the (url winner)))])"
proof (intro conjI impI)
  have pre': "\<forall>x\<in>set (pre @ [server]). rejects lib name password x"
    using assms by (simp add: lookup_finds_no_entry_rejects)
  show "ldap_loop lib name password (pre @ server # post) [] =
       (case ldap_loop lib name password post
               (map (attempt_message lib name password) pre
                  @ [lookup_failure_message name server]) of
          (r, evs) \<Rightarrow> (r, concat (map (attempt_events lib name password) (pre @ [server])) @ evs))"
    using ldap_loop_rejected_prefix [OF pre', of post "[]"] assms(2)
    by (simp add: lookup_finds_no_entry_message)
  {
    assume h: "name \<noteq> [] \<and> password \<noteq> [] \<and> table name = Some usr \<and> is_active usr
          \<and> (\<forall>x\<in>set post. rejects lib name password x)"
    then have all: "\<forall>x\<in>set (pre @ server # post). rejects lib name password x"
      using pre' by auto
    have auth: "LDAP_authenticate table lib (pre @ server # post) (Some req) (Some name) (Some password) =
        (Inr None,
         SensitivePostParameters [''password''] # DbGet (Some name) # concat (map (attempt_events lib name password) (pre @ server # post))
           @ map (Log WARNING) (map (attempt_message lib name password) (pre @ server # post)))"
      using h ldap_loop_all_rejected [OF all, of "[]"]
      by (simp add: LDAP_authenticate_loop)
    show "fst (LDAP_authenticate table lib (pre @ server # post) (Some req) (Some name) (Some password))
              = Inr None"
      by (simp only: auth fst_conv)
    have mem: "lookup_failure_message name server
        \<in> set (map (attempt_message lib name password) (pre @ server # post))"
      using assms(2) by (simp add: lookup_finds_no_entry_message)
    have "snd (LDAP_authenticate table lib (pre @ server # post) (Some req) (Some name) (Some password)) =
        (SensitivePostParameters [''password''] # DbGet (Some name) # concat (map (attempt_events lib name password) (pre @ server # post)))
          @ map (Log WARNING) (map (attempt_message lib name password) (pre @ server # post))"
      by (simp only: auth snd_conv append_Cons)
    then show "(WARNING, lookup_failure_message name server)
                \<in> set (log_lines (snd (LDAP_authenticate table lib (pre @ server # post)
                                          (Some req) (Some name) (Some password))))"
      using warning_logged [OF mem] by (simp only:)
  }
  {
    assume h: "name \<noteq> [] \<and> password \<noteq> [] \<and> table name = Some usr \<and> is_active usr
          \<and> post = mid @ winner # rest \<and> (\<forall>x\<in>set mid. rejects lib name password x)
          \<and> accepts lib name password winner"
    then have rej: "\<forall>x\<in>set ((pre @ [server]) @ mid). rejects lib name password x"
      using pre' by auto
    have split: "pre @ server # post = ((pre @ [server]) @ mid) @ winner # rest"
      using h by simp
    have auth: "LDAP_authenticate table lib (pre @ server # post) (Some req) (Some name) (Some password) =
        (Inr (Some usr),
         SensitivePostParameters [''password''] # DbGet (Some name)
           # concat (map (attempt_events lib name password) (((pre @ [server]) @ mid) @ [winner])))"
      using h ldap_loop_first_accepted [OF rej, of winner rest "[]"]
      by (simp only: split) (simp add: LDAP_authenticate_loop)
    show "fst (LDAP_authenticate table lib (pre @ server # post) (Some req) (Some name) (Some password))
              = Inr (Some usr)"
      by (simp only: auth fst_conv)
    have quiet: "log_lines (concat (map (attempt_events lib name password) ((pre @ [server]) @ mid))) = []"
      using rejected_servers_log [OF rej] .
    have "log_lines (snd (LDAP_authenticate table lib (pre @ server # post)
                                (Some req) (Some name) (Some password))) =
        log_lines (concat (map (attempt_events lib name password) ((pre @ [server]) @ mid)))
          @ log_lines (attempt_events lib name password winner)"
      by (simp only: auth snd_conv) (simp add: log_lines_append)
    also have "\<dots> = [(DEBUG, authenticated_message name (the (url winner)))]"
      using h by (simp only: quiet attempt_log) simp
    finally show "log_lines (snd (LDAP_authenticate table lib (pre @ server # post)
                                (Some req) (Some name) (Some password)))
              = [(DEBUG, authenticated_message name (the (url winner)))]" .
  }
qed

theorem failed_lookup_is_collected_witness:
  "lookup_finds_no_entry example_ldap ''alice'' server_one
   \<and> rejects example_ldap ''alice'' ''wrong'' server_two
   \<and> accepts example_ldap ''alice'' ''secret'' server_two
   \<and> fst (LDAP_authenticate example_users example_ldap ([] @ server_one # [server_two])
            (Some example_post) (Some ''alice'') (Some ''wrong'')) = Inr None
   \<and> (WARNING, lookup_failure_message ''alice'' server_one)
        \<in> set (log_lines (snd (LDAP_authenticate example_users example_ldap
                                  ([] @ server_one # [server_two]) (Some example_post) (Some ''alice'') (Some ''wrong''))))
   \<and> log_lines (snd (LDAP_authenticate example_users example_ldap
                       ([] @ server_one # [server_two]) (Some example_post) (Some ''alice'') (Some ''secret'')))
       = [(DEBUG, authenticated_message ''alice'' (the (url server_two)))]"
proof -
  have none: "\<forall>x\<in>set []. rejects example_ldap ''alice'' pw x" for pw
    by simp
  have look: "lookup_finds_no_entry example_ldap ''alice'' server_one"
    by (simp add: lookup_finds_no_entry_def attempt_defs example_defs)
  have u: "example_users ''alice'' = Some alice"
    by (simp add: example_users_def)
  have act: "is_active alice"
    by (simp add: alice_def)
  note W = failed_lookup_is_collected [where pre = "[]" and lib = example_ldap
      and name = "''alice''" and password = "''wrong''" and server = server_one
      and post = "[server_two]" and table = example_users and usr = alice and req = example_post, OF none look]
  note S = failed_lookup_is_collected [where pre = "[]" and lib = example_ldap
      and name = "''alice''" and password = "''secret''" and server = server_one
      and post = "[server_two]" and table = example_users and usr = alice and req = example_post
      and mid = "[]" and winner = server_two and rest = "[]", OF none look]
  have w: "''alice'' \<noteq> [] \<and> ''wrong'' \<noteq> [] \<and> example_users ''alice'' = Some alice
      \<and> is_active alice \<and> (\<forall>x\<in>set [server_two]. rejects example_ldap ''alice'' ''wrong'' x)"
    using u act server_two_rejects by simp
  have s: "''alice'' \<noteq> [] \<and> ''secret'' \<noteq> [] \<and> example_users ''alice'' = Some alice
      \<and> is_active alice \<and> [server_two] = [] @ server_two # []
      \<and> (\<forall>x\<in>set []. rejects example_ldap ''alice'' ''secret'' x)
      \<and> accepts example_ldap ''alice'' ''secret'' server_two"
    using u act server_two_accepts by simp
  from W w have W': "fst (LDAP_authenticate example_users example_ldap ([] @ server_one # [server_two])
            (Some example_post) (Some ''alice'') (Some ''wrong'')) = Inr None
     \<and> (WARNING, lookup_failure_message ''alice'' server_one)
        \<in> set (log_lines (snd (LDAP_authenticate example_users example_ldap
                                  ([] @ server_one # [server_two]) (Some example_post) (Some ''alice'') (Some ''wrong''))))"
    by blast
  from S s have S': "log_lines (snd (LDAP_authenticate example_users example_ldap
                       ([] @ server_one # [server_two]) (Some example_post) (Some ''alice'') (Some ''secret'')))
       = [(DEBUG, authenticated_message ''alice'' (the (url server_two)))]"
    by blast
  show ?thesis
    using look server_two_rejects server_two_accepts W' S' by blast
qed

text \<open>
  Claim C3 as stated fails: the search on the first server finds no entry, the second
  server accepts the user, and no log line is written for the failed search.
\<close>

theorem failed_lookup_not_logged_counterexample:
  "lookup_finds_no_entry example_ldap ''alice'' server_one
   \<and> fst (LDAP_authenticate example_users example_ldap [server_one, server_two] (Some example_post) (Some ''alice'')
            (Some ''secret'')) = Inr (Some alice)
   \<and> log_lines (snd (LDAP_authenticate example_users example_ldap [server_one, server_two]
                       (Some example_post) (Some ''alice'') (Some ''secret'')))
       = [(DEBUG, ''User alice was successfully authenticated with LDAP (ldaps://two.example.org)'')]"
  by (simp add: lookup_finds_no_entry_def LDAP_authenticate_request LDAP_authenticate_body_def
      objects_get_def
      authenticated_message_def attempt_defs example_defs)

subsection \<open>The header backend\<close>

text \<open>
  Claim C2. The header \<^verbatim>\<open>Basic YWxpY2VAUkVBTE06eA==\<close> carries the credentials
  \<^verbatim>\<open>alice@REALM:x\<close>. \<^verbatim>\<open>clean_username\<close> decodes it and cuts at the colon, and
  returns \<^verbatim>\<open>alice@REALM\<close>: the realm is not stripped, although the docstring of
  the method says it is and the remote-user backend's \<^verbatim>\<open>clean_username\<close> does it.
\<close>

theorem header_realm_is_kept:
  "b64decode ''YWxpY2VAUkVBTE06eA=='' = Inr ''alice@REALM:x''
   \<and> Nginx_clean_username (Some ''Basic YWxpY2VAUkVBTE06eA=='') = Inr (Some ''alice@REALM'')
   \<and> RemoteUser_clean_username ''alice@REALM'' = ''alice''"
  by code_simp


text \<open>
  Claim C9. When the \<^verbatim>\<open>HTTP_AUTHORIZATION\<close> header is absent or empty, does not
  split into exactly two words, or its first word is not \<^verbatim>\<open>Basic\<close>,
  \<^verbatim>\<open>clean_username\<close> returns \<^verbatim>\<open>None\<close>; the backend then looks up the user name
  \<^verbatim>\<open>None\<close>, which matches no user, logs the denial and returns \<^verbatim>\<open>None\<close>.
\<close>

theorem header_not_basic_is_denied:
  assumes "header = None \<or> header = Some []
      \<or> (\<exists>h. header = Some h \<and> (length (str_split h) \<noteq> 2 \<or> str_split h ! 0 \<noteq> ''Basic''))"
  shows "Nginx_clean_username header = Inr None
     \<and> (META req ''HTTP_AUTHORIZATION'' = header
        \<longrightarrow> Nginx_authenticate table req =
              (Inr None, [DbGet None, Log WARNING (nginx_unknown_user_message ''None'')]))"
proof -
  have c: "Nginx_clean_username header = Inr None"
    using assms by (auto simp add: Nginx_clean_username_def truthy_def Let_def)
  then show ?thesis
    by (simp add: Nginx_authenticate_def objects_get_def format_name_def)
qed

lemma split_negotiate: "str_split ''Negotiate YWxpY2U6eA=='' = [''Negotiate'', ''YWxpY2U6eA=='']"
  by code_simp

lemma split_three: "str_split ''Basic YWxpY2U6eA== extra'' = [''Basic'', ''YWxpY2U6eA=='', ''extra'']"
  by code_simp

theorem header_not_basic_is_denied_witness:
  "Nginx_clean_username (Some ''Negotiate YWxpY2U6eA=='') = Inr None
   \<and> Nginx_clean_username (Some ''Basic YWxpY2U6eA== extra'') = Inr None
   \<and> Nginx_authenticate example_users
        (header_request ''Negotiate YWxpY2U6eA=='') =
       (Inr None, [DbGet None, Log WARNING (nginx_unknown_user_message ''None'')])"
proof -
  have h1: "Some ''Negotiate YWxpY2U6eA=='' = None \<or> Some ''Negotiate YWxpY2U6eA=='' = Some []
      \<or> (\<exists>h. Some ''Negotiate YWxpY2U6eA=='' = Some h
            \<and> (length (str_split h) \<noteq> 2 \<or> str_split h ! 0 \<noteq> ''Basic''))"
    by (simp add: split_negotiate)
  have h2: "Some ''Basic YWxpY2U6eA== extra'' = None \<or> Some ''Basic YWxpY2U6eA== extra'' = Some []
      \<or> (\<exists>h. Some ''Basic YWxpY2U6eA== extra'' = Some h
            \<and> (length (str_split h) \<noteq> 2 \<or> str_split h ! 0 \<noteq> ''Basic''))"
    by (simp add: split_three)
  have m: "META ((header_request ''Negotiate YWxpY2U6eA=='')) ''HTTP_AUTHORIZATION''
        = Some ''Negotiate YWxpY2U6eA==''"
    by (simp add: header_request_def)
  show ?thesis
    using header_not_basic_is_denied [OF h1, of "header_request ''Negotiate YWxpY2U6eA==''" example_users]
      header_not_basic_is_denied [OF h2] m
    by blast
qed

subsection \<open>The remote-user backend\<close>

text \<open>
  With \<^verbatim>\<open>create_unknown_user\<close> set, the inherited method would insert the unknown
  user.
\<close>

lemma creating_backend_inserts:
  "table (clean remote_user) = None \<Longrightarrow> remote_user \<noteq> [] \<Longrightarrow>
   snd (RemoteUserBackend_authenticate True clean table (Some remote_user)) (clean remote_user)
     = Some \<lparr>username = clean remote_user, is_active = True\<rparr>"
  by (simp add: RemoteUserBackend_authenticate_def truthy_def Let_def)

text \<open>
  Claim C10. \<^verbatim>\<open>RemoteUserAuthenticationBackend\<close> sets \<^verbatim>\<open>create_unknown_user\<close> to
  \<^verbatim>\<open>False\<close>; when the cleaned remote user name has no row in the user table, the
  backend returns \<^verbatim>\<open>None\<close> and leaves the user table as it was.
\<close>

theorem remote_user_unknown_is_not_created:
  "\<not> create_unknown_user
   \<and> (table (RemoteUser_clean_username remote_user) = None
      \<longrightarrow> RemoteUser_authenticate table (Some remote_user) = (None, table))"
  by (simp add: RemoteUser_authenticate_def RemoteUserBackend_authenticate_def
      create_unknown_user_def truthy_def Let_def)

lemma clean_carol: "RemoteUser_clean_username ''carol@EXAMPLE.ORG'' = ''carol''"
  by (simp add: RemoteUser_clean_username_def)

theorem remote_user_unknown_is_not_created_witness:
  "example_users (RemoteUser_clean_username ''carol@EXAMPLE.ORG'') = None
   \<and> RemoteUser_authenticate example_users (Some ''carol@EXAMPLE.ORG'') = (None, example_users)"
proof -
  have h: "example_users (RemoteUser_clean_username ''carol@EXAMPLE.ORG'') = None"
    by (simp add: clean_carol example_users_def)
  show ?thesis
    using h remote_user_unknown_is_not_created [of example_users "''carol@EXAMPLE.ORG''"]
    by blast
qed

subsection \<open>The login view\<close>

text \<open>
  Claim C5. When the remote-user or the header backend is configured, the requesting
  user is not authenticated and no other backend is configured, \<^verbatim>\<open>login_user\<close>
  answers a \<^verbatim>\<open>GET\<close> or \<^verbatim>\<open>POST\<close> request with the authorization-failed page, with no
  effect but the decorator's marking of the password; that page is not the login form.
\<close>

theorem only_remote_backends_rejects:
  assumes "REMOTE_USER_BACKEND \<in> set (AUTHENTICATION_BACKENDS st)
      \<or> NGINX_BACKEND \<in> set (AUTHENTICATION_BACKENDS st)"
    and "\<not> user_is_authenticated req"
    and "\<forall>backend\<in>set (AUTHENTICATION_BACKENDS st).
           backend = REMOTE_USER_BACKEND \<or> backend = NGINX_BACKEND"
    and "request_method req = ''GET'' \<or> request_method req = ''POST''"
  shows "login_user st req =
       (Inr (authorization_failed st), [SensitivePostParameters [''password'']])
     \<and> authorization_failed st \<noteq> login_page st incorrect"
proof -
  have "filter (\<lambda>backend. backend \<notin> set [REMOTE_USER_BACKEND, NGINX_BACKEND])
          (AUTHENTICATION_BACKENDS st) = []"
    using assms(3) by (auto simp add: filter_empty_conv)
  then have "login_user st req =
      (Inr (authorization_failed st), [SensitivePostParameters [''password'']])"
    using assms(1,2,4)
    by (auto simp add: login_user_def login_user_body_def sensitive_post_parameters_def)
  moreover have "authorization_failed st \<noteq> login_page st incorrect"
    by (simp add: authorization_failed_def login_page_def)
  ultimately show ?thesis by simp
qed

theorem only_remote_backends_rejects_witness:
  "login_user (example_site [NGINX_BACKEND, REMOTE_USER_BACKEND])
      (example_request ''GET'' [] [] Map.empty) =
     (Inr (authorization_failed (example_site [NGINX_BACKEND, REMOTE_USER_BACKEND])),
      [SensitivePostParameters [''password'']])"
proof -
  have 1: "REMOTE_USER_BACKEND \<in> set (AUTHENTICATION_BACKENDS (example_site [NGINX_BACKEND, REMOTE_USER_BACKEND]))
      \<or> NGINX_BACKEND \<in> set (AUTHENTICATION_BACKENDS (example_site [NGINX_BACKEND, REMOTE_USER_BACKEND]))"
    by (simp add: example_site_def)
  have 2: "\<not> user_is_authenticated (example_request ''GET'' [] [] Map.empty)"
    by (simp add: example_request_def)
  have 3: "\<forall>backend\<in>set (AUTHENTICATION_BACKENDS (example_site [NGINX_BACKEND, REMOTE_USER_BACKEND])).
           backend = REMOTE_USER_BACKEND \<or> backend = NGINX_BACKEND"
    by (simp add: example_site_def)
  have 4: "request_method (example_request ''GET'' [] [] Map.empty) = ''GET''
      \<or> request_method (example_request ''GET'' [] [] Map.empty) = ''POST''"
    by (simp add: example_request_def)
  show ?thesis
    using only_remote_backends_rejects [OF 1 2 3 4] by blast
qed

subsection \<open>The migration\<close>

text \<open>
  Claim C7. On models where \<^verbatim>\<open>landingpagechoice\<close> has a field
  \<^verbatim>\<open>hide_from_users\<close> and no field \<^verbatim>\<open>hide_from_staff\<close>, the operations of the
  migration succeed; afterwards both fields of \<^verbatim>\<open>landingpagechoice\<close> are the boolean
  fields of the migration, each with default \<^verbatim>\<open>False\<close>, the set of models is the
  same, and every other field of every model is as before.
\<close>

theorem migration_sets_two_flags:
  assumes "ms ''landingpagechoice'' = Some fs"
    and "fs ''hide_from_staff'' = None"
    and "fs ''hide_from_users'' = Some old"
  shows "\<exists>ms'. apply_operations (operations Migration) ms = Some ms'
      \<and> field_of ms' ''landingpagechoice'' ''hide_from_staff'' = Some hide_from_staff_field
      \<and> field_of ms' ''landingpagechoice'' ''hide_from_users'' = Some hide_from_users_field
      \<and> is_BooleanField hide_from_staff_field \<and> default_value hide_from_staff_field = False
      \<and> is_BooleanField hide_from_users_field \<and> default_value hide_from_users_field = False
      \<and> dom ms' = dom ms
      \<and> (\<forall>model_name name.
            (model_name, name) \<noteq> (''landingpagechoice'', ''hide_from_staff'')
            \<and> (model_name, name) \<noteq> (''landingpagechoice'', ''hide_from_users'')
            \<longrightarrow> field_of ms' model_name name = field_of ms model_name name)"
proof -
  let ?ms' = "ms(''landingpagechoice'' \<mapsto>
      (fs(''hide_from_staff'' \<mapsto> hide_from_staff_field))(''hide_from_users'' \<mapsto> hide_from_users_field))"
  have run: "apply_operations (operations Migration) ms = Some ?ms'"
    using assms by (simp add: Migration_def)
  have frame: "field_of ?ms' model_name name = field_of ms model_name name"
    if "(model_name, name) \<noteq> (''landingpagechoice'', ''hide_from_staff'')
        \<and> (model_name, name) \<noteq> (''landingpagechoice'', ''hide_from_users'')"
    for model_name name
    using that assms(1) by (auto simp add: field_of_def)
  have d: "dom ?ms' = dom ms"
    using assms(1) by auto
  have flags: "is_BooleanField hide_from_staff_field \<and> default_value hide_from_staff_field = False
      \<and> is_BooleanField hide_from_users_field \<and> default_value hide_from_users_field = False"
    by (simp add: hide_from_staff_field_def hide_from_users_field_def)
  have set: "field_of ?ms' ''landingpagechoice'' ''hide_from_staff'' = Some hide_from_staff_field
      \<and> field_of ?ms' ''landingpagechoice'' ''hide_from_users'' = Some hide_from_users_field"
    by (simp add: field_of_def)
  show ?thesis
    using run frame d flags set by blast
qed

theorem migration_sets_two_flags_witness:
  "\<exists>ms'. apply_operations (operations Migration) example_models = Some ms'
      \<and> field_of ms' ''landingpagechoice'' ''hide_from_staff'' = Some hide_from_staff_field
      \<and> field_of ms' ''landingpagechoice'' ''hide_from_users'' = Some hide_from_users_field
      \<and> field_of ms' ''landingpagechoice'' ''name'' = Some (OtherField ''CharField'')
      \<and> field_of ms' ''user'' ''username'' = Some (OtherField ''CharField'')"
proof -
  have 1: "example_models ''landingpagechoice'' =
      Some [''name'' \<mapsto> OtherField ''CharField'',
            ''hide_from_users'' \<mapsto> BooleanField False ''Hides this choice from normal users'']"
    by (simp add: example_models_def)
  have 2: "[''name'' \<mapsto> OtherField ''CharField'',
            ''hide_from_users'' \<mapsto> BooleanField False ''Hides this choice from normal users'']
            ''hide_from_staff'' = None"
    by simp
  have 3: "[''name'' \<mapsto> OtherField ''CharField'',
            ''hide_from_users'' \<mapsto> BooleanField False ''Hides this choice from normal users'']
            ''hide_from_users'' = Some (BooleanField False ''Hides this choice from normal users'')"
    by simp
  have a: "field_of example_models ''landingpagechoice'' ''name'' = Some (OtherField ''CharField'')"
    by (simp add: field_of_def example_models_def)
  have b: "field_of example_models ''user'' ''username'' = Some (OtherField ''CharField'')"
    by (simp add: field_of_def example_models_def)
  have n1: "(''landingpagechoice'', ''name'') \<noteq> (''landingpagechoice'', ''hide_from_staff'')
        \<and> (''landingpagechoice'', ''name'') \<noteq> (''landingpagechoice'', ''hide_from_users'')"
    by simp
  have n2: "(''user'', ''username'') \<noteq> (''landingpagechoice'', ''hide_from_staff'')
        \<and> (''user'', ''username'') \<noteq> (''landingpagechoice'', ''hide_from_users'')"
    by simp
  from migration_sets_two_flags [where ms = example_models
      and fs = "[''name'' \<mapsto> OtherField ''CharField'',
            ''hide_from_users'' \<mapsto> BooleanField False ''Hides this choice from normal users'']"
      and old = "BooleanField False ''Hides this choice from normal users''", OF 1 2 3]
  obtain ms' where
    r: "apply_operations (operations Migration) example_models = Some ms'"
      "field_of ms' ''landingpagechoice'' ''hide_from_staff'' = Some hide_from_staff_field"
      "field_of ms' ''landingpagechoice'' ''hide_from_users'' = Some hide_from_users_field"
    and fr: "\<forall>model_name name.
            (model_name, name) \<noteq> (''landingpagechoice'', ''hide_from_staff'')
            \<and> (model_name, name) \<noteq> (''landingpagechoice'', ''hide_from_users'')
            \<longrightarrow> field_of ms' model_name name = field_of example_models model_name name"
    by blast
  from fr n1 a have a': "field_of ms' ''landingpagechoice'' ''name'' = Some (OtherField ''CharField'')"
    by metis
  from fr n2 b have b': "field_of ms' ''user'' ''username'' = Some (OtherField ''CharField'')"
    by metis
  from r a' b' show ?thesis by blast
qed


subsection \<open>Sessions\<close>

text \<open>No backend establishes a session; only the login view does, after a backend returned a user.\<close>

lemma logins_append: "logins (xs @ ys) = logins xs @ logins ys"
  by (induction xs rule: logins.induct) simp_all

lemma logins_warnings: "logins (map (Log l) ms) = []"
  by (induction ms) simp_all

lemma bind_as_user_logins:
  "bind_as_user lib name password server u d = (a, evs) \<Longrightarrow> logins evs = []"
  by (auto simp add: bind_as_user_def Let_def split: option.splits)

lemma read_response_logins:
  "read_response m attr s found response done = (r, evs) \<Longrightarrow> logins done = [] \<Longrightarrow>
   logins evs = []"
  by (auto simp add: read_response_def logins_append split: if_splits list.splits option.splits)

lemma search_for_user_logins:
  "search_for_user lib name server u = (r, evs) \<Longrightarrow> logins evs = []"
  by (auto simp add: search_for_user_def Let_def
      split: option.splits sum.splits prod.splits dest!: read_response_logins)

lemma attempt_logins: "logins (snd (ldap_attempt lib name password server)) = []"
  unfolding ldap_attempt_def
  by (auto simp add: Let_def logins_append
      split: option.splits sum.splits prod.splits
      dest!: search_for_user_logins bind_as_user_logins)

lemma ldap_loop_logins: "logins (snd (ldap_loop lib name password servers errors)) = []"
proof (induction servers arbitrary: errors)
  case Nil
  then show ?case by simp
next
  case (Cons server servers)
  obtain a evs where att: "ldap_attempt lib name password server = (a, evs)"
    by (cases "ldap_attempt lib name password server")
  then have quiet: "logins evs = []"
    using attempt_logins [of lib name password server] by simp
  show ?case
  proof (cases a)
    case Authenticated
    with att quiet show ?thesis by simp
  next
    case (Failed m)
    obtain r evs' where rest: "ldap_loop lib name password servers (errors @ [m]) = (r, evs')"
      by (cases "ldap_loop lib name password servers (errors @ [m])")
    then have "logins evs' = []"
      using Cons.IH [of "errors @ [m]"] by simp
    with att quiet Failed rest show ?thesis by (simp add: logins_append)
  next
    case (Raised e)
    with att quiet show ?thesis by simp
  qed
qed

lemma LDAP_authenticate_body_logins:
  "logins (snd (LDAP_authenticate_body table lib servers name password)) = []"
proof -
  obtain r evs where loop: "ldap_loop lib (the name) (the password) servers [] = (r, evs)"
    by (cases "ldap_loop lib (the name) (the password) servers []")
  then have "logins evs = []"
    using ldap_loop_logins [of lib "the name" "the password" servers "[]"] by simp
  with loop show ?thesis
    by (auto simp add: LDAP_authenticate_body_def logins_append logins_warnings
        split: sum.splits prod.splits)
qed

lemma LDAP_authenticate_logins:
  "logins (snd (LDAP_authenticate table lib servers request name password)) = []"
proof (cases request)
  case None
  then show ?thesis
    by (simp add: LDAP_authenticate_def sensitive_post_parameters_def)
next
  case (Some req)
  obtain r evs where b: "LDAP_authenticate_body table lib servers name password = (r, evs)"
    by (cases "LDAP_authenticate_body table lib servers name password")
  then have "logins evs = []"
    using LDAP_authenticate_body_logins [of table lib servers name password] by simp
  with Some b show ?thesis
    by (simp add: LDAP_authenticate_request)
qed

lemma Nginx_authenticate_logins: "logins (snd (Nginx_authenticate table req)) = []"
  by (auto simp add: Nginx_authenticate_def split: sum.splits)

lemma authenticate_logins: "logins (snd (authenticate st req name password backends)) = []"
proof (induction backends)
  case Nil
  then show ?case by simp
next
  case (Cons backend rest)
  obtain r evs where tail: "authenticate st req name password rest = (r, evs)"
    by (cases "authenticate st req name password rest")
  with Cons.IH have quiet: "logins evs = []" by simp
  obtain rn en where n: "Nginx_authenticate (users st) req = (rn, en)"
    by (cases "Nginx_authenticate (users st) req")
  then have qn: "logins en = []"
    using Nginx_authenticate_logins [of "users st" req] by simp
  obtain rl el where l: "LDAP_authenticate (users st) (ldap st) (LDAP_SERVERS st) (Some req)
      (Some name) (Some password) = (rl, el)"
    by (cases "LDAP_authenticate (users st) (ldap st) (LDAP_SERVERS st) (Some req) (Some name)
      (Some password)")
  then have ql: "logins el = []"
    using LDAP_authenticate_logins [of "users st" "ldap st" "LDAP_SERVERS st" "Some req"
        "Some name" "Some password"] by simp
  show ?case
    using tail quiet n qn l ql
    by (auto simp add: logins_append split: sum.splits option.splits backend_answer.splits)
qed

lemma login_form_logged_in:
  assumes "logins (snd (login_form st req)) \<noteq> []"
  shows "fst (login_form st req) = Inr (HttpResponseRedirect (next_page st req))"
proof -
  obtain r evs where a: "authenticate st req (posted req ''username'') (posted req ''password'')
      (AUTHENTICATION_BACKENDS st) = (r, evs)"
    by (cases "authenticate st req (posted req ''username'') (posted req ''password'')
      (AUTHENTICATION_BACKENDS st)")
  then have quiet: "logins evs = []"
    using authenticate_logins [of st req "posted req ''username''" "posted req ''password''"
        "AUTHENTICATION_BACKENDS st"] by simp
  show ?thesis
    using assms a quiet
    by (auto simp add: login_form_def logins_append
        split: if_splits sum.splits option.splits exn.splits)
qed

subsection \<open>The login view with the LDAP backend alone\<close>

lemma backend_names_differ:
  "LDAP_BACKEND \<noteq> REMOTE_USER_BACKEND" "LDAP_BACKEND \<noteq> NGINX_BACKEND"
  "REMOTE_USER_BACKEND \<noteq> LDAP_BACKEND" "NGINX_BACKEND \<noteq> LDAP_BACKEND"
  "REMOTE_USER_BACKEND \<noteq> NGINX_BACKEND" "NGINX_BACKEND \<noteq> REMOTE_USER_BACKEND"
  by (simp_all add: LDAP_BACKEND_def REMOTE_USER_BACKEND_def NGINX_BACKEND_def)

lemma authenticate_ldap_only:
  "authenticate st req name password [LDAP_BACKEND] =
     LDAP_authenticate (users st) (ldap st) (LDAP_SERVERS st) (Some req) (Some name)
       (Some password)"
proof -
  obtain r evs where l: "LDAP_authenticate (users st) (ldap st) (LDAP_SERVERS st) (Some req)
      (Some name) (Some password) = (r, evs)"
    by (cases "LDAP_authenticate (users st) (ldap st) (LDAP_SERVERS st) (Some req) (Some name)
      (Some password)")
  then show ?thesis
    by (simp add: backend_names_differ split: sum.splits option.splits)
qed

lemma login_user_decorated:
  assumes "request_method req = ''GET'' \<or> request_method req = ''POST''"
  shows "login_user st req =
     (case login_user_body st req of
        (r, evs) \<Rightarrow> (r, SensitivePostParameters [''password''] # evs))"
  using assms by (auto simp add: login_user_def sensitive_post_parameters_def)

lemma login_user_ldap_only:
  assumes "ldap_login_attempt st req name password"
  shows "login_user st req =
     (case LDAP_authenticate (users st) (ldap st) (LDAP_SERVERS st) (Some req) (Some name)
             (Some password) of
        (Inl DoesNotExist, evs) \<Rightarrow>
          (Inr (authorization_failed st), SensitivePostParameters [''password''] # evs)
      | (Inl (InactiveUserError n), evs) \<Rightarrow>
          (Inr (authorization_failed st), SensitivePostParameters [''password''] # evs)
      | (Inl e, evs) \<Rightarrow> (Inl e, SensitivePostParameters [''password''] # evs)
      | (Inr (Some usr), evs) \<Rightarrow>
          (Inr (HttpResponseRedirect (next_page st req)),
           SensitivePostParameters [''password''] # evs @ [SessionLogin usr])
      | (Inr None, evs) \<Rightarrow>
          (Inr (login_page st True), SensitivePostParameters [''password''] # evs))"
proof -
  from assms have eqs: "request_method req = ''POST''"
    "AUTHENTICATION_BACKENDS st = [LDAP_BACKEND]"
    "posted req ''username'' = name" "posted req ''password'' = password"
    by (simp_all add: ldap_login_attempt_def)
  have body: "login_user_body st req = login_form st req"
    by (simp add: login_user_body_def eqs backend_names_differ)
  have wrap: "login_user st req =
      (case login_form st req of (r, evs) \<Rightarrow> (r, SensitivePostParameters [''password''] # evs))"
    using login_user_decorated [of req st] by (simp add: eqs body)
  have auth: "authenticate st req (posted req ''username'') (posted req ''password'')
      (AUTHENTICATION_BACKENDS st) =
      LDAP_authenticate (users st) (ldap st) (LDAP_SERVERS st) (Some req) (Some name)
        (Some password)"
    by (simp only: eqs authenticate_ldap_only)
  show ?thesis
    by (simp only: wrap login_form_def auth)
      (simp add: eqs split: prod.splits sum.splits option.splits exn.splits)
qed





subsection \<open>The concrete site\<close>

lemma example_attempt:
  "n \<noteq> [] \<Longrightarrow> p \<noteq> [] \<Longrightarrow>
   ldap_login_attempt (example_site [LDAP_BACKEND]) (example_request ''POST'' n p q) n p"
  by (simp add: ldap_login_attempt_def example_site_def example_request_def posted_def)

lemma example_site_fields:
  "users (example_site bs) = example_users" "ldap (example_site bs) = example_ldap"
  "LDAP_SERVERS (example_site bs) = [server_one, server_two]"
  "landing (example_site bs) = ''/''"
  "resolve (example_site bs) path = (path = ''/calendar/'')"
  by (simp_all add: example_site_def)






lemma example_ldap_success:
  "fst (LDAP_authenticate example_users example_ldap [server_one, server_two] (Some req)
          (Some ''alice'') (Some ''secret'')) = Inr (Some alice)"
proof -
  have "ldap_loop example_ldap ''alice'' ''secret'' ([server_one] @ server_two # []) [] =
     (Inr (True, [] @ map (attempt_message example_ldap ''alice'' ''secret'') [server_one]),
      concat (map (attempt_events example_ldap ''alice'' ''secret'') ([server_one] @ [server_two])))"
    using server_one_rejects server_two_accepts
    by (intro ldap_loop_first_accepted) simp_all
  then show ?thesis
    by (simp add: LDAP_authenticate_loop [where usr = alice] example_users_def alice_def)
qed

lemma example_login_session:
  "logins (snd (login_user (example_site [LDAP_BACKEND])
                  (example_request ''POST'' ''alice'' ''secret'' q))) \<noteq> []"
proof -
  obtain evs where l: "LDAP_authenticate example_users example_ldap [server_one, server_two]
      (Some (example_request ''POST'' ''alice'' ''secret'' q)) (Some ''alice'') (Some ''secret'')
      = (Inr (Some alice), evs)"
    using example_ldap_success [of "example_request ''POST'' ''alice'' ''secret'' q"]
    by (cases "LDAP_authenticate example_users example_ldap [server_one, server_two]
      (Some (example_request ''POST'' ''alice'' ''secret'' q)) (Some ''alice'') (Some ''secret'')")
      simp
  have a: "ldap_login_attempt (example_site [LDAP_BACKEND])
      (example_request ''POST'' ''alice'' ''secret'' q) ''alice'' ''secret''"
    by (rule example_attempt) simp_all
  show ?thesis
    by (simp add: login_user_ldap_only [OF a] example_site_fields l logins_append)
qed

subsection \<open>The login view: redirect and failure\<close>

text \<open>
  Claim C6. Whenever \<^verbatim>\<open>login_user\<close> establishes a session, the request is a
  \<^verbatim>\<open>POST\<close> and the answer is a redirect: to the value of the \<^verbatim>\<open>next\<close> parameter
  when that parameter is present and \<^verbatim>\<open>resolve\<close> accepts it, and to the landing page
  when \<^verbatim>\<open>resolve\<close> refuses it or the parameter is absent.
\<close>

theorem login_redirects_to_resolved_target:
  assumes "logins (snd (login_user st req)) \<noteq> []"
  shows "request_method req = ''POST''
     \<and> fst (login_user st req) =
         Inr (HttpResponseRedirect
                (case GET req REDIRECT_FIELD_NAME of
                   None \<Rightarrow> landing st
                 | Some target \<Rightarrow> (if resolve st target then target else landing st)))"
proof -
  obtain r evs where b: "login_user_body st req = (r, evs)"
    by (cases "login_user_body st req")
  have allowed: "request_method req = ''GET'' \<or> request_method req = ''POST''"
    using assms by (auto simp add: login_user_def split: if_splits)
  then have lu: "login_user st req = (r, SensitivePostParameters [''password''] # evs)"
    using b login_user_decorated [of req st] by simp
  with assms have l: "logins evs \<noteq> []"
    by simp
  have form: "login_user_body st req = login_form st req"
    using b l by (auto simp add: login_user_body_def split: if_splits)
  have post: "request_method req = ''POST''"
    using allowed form b l by (auto simp add: login_form_def)
  have f: "login_form st req = (r, evs)"
    using form b by simp
  then have "logins (snd (login_form st req)) \<noteq> []"
    using l by simp
  then have "fst (login_form st req) = Inr (HttpResponseRedirect (next_page st req))"
    by (rule login_form_logged_in)
  with f have "r = Inr (HttpResponseRedirect (next_page st req))"
    by simp
  with lu post show ?thesis
    by (simp add: next_page_def)
qed

theorem login_redirects_to_resolved_target_witness:
  "fst (login_user (example_site [LDAP_BACKEND])
          (example_request ''POST'' ''alice'' ''secret'' [''next'' \<mapsto> ''/calendar/'']))
     = Inr (HttpResponseRedirect ''/calendar/'')
   \<and> fst (login_user (example_site [LDAP_BACKEND])
          (example_request ''POST'' ''alice'' ''secret'' [''next'' \<mapsto> ''http://evil.example/'']))
     = Inr (HttpResponseRedirect ''/'')
   \<and> fst (login_user (example_site [LDAP_BACKEND])
          (example_request ''POST'' ''alice'' ''secret'' Map.empty))
     = Inr (HttpResponseRedirect ''/'')"
proof -
  have next1: "(case GET (example_request ''POST'' ''alice'' ''secret'' [''next'' \<mapsto> ''/calendar/''])
                  REDIRECT_FIELD_NAME of
              None \<Rightarrow> landing (example_site [LDAP_BACKEND])
            | Some target \<Rightarrow>
                (if resolve (example_site [LDAP_BACKEND]) target then target
                 else landing (example_site [LDAP_BACKEND]))) = ''/calendar/''"
    by (simp add: example_request_def REDIRECT_FIELD_NAME_def example_site_fields)
  have next2: "(case GET (example_request ''POST'' ''alice'' ''secret''
                       [''next'' \<mapsto> ''http://evil.example/'']) REDIRECT_FIELD_NAME of
              None \<Rightarrow> landing (example_site [LDAP_BACKEND])
            | Some target \<Rightarrow>
                (if resolve (example_site [LDAP_BACKEND]) target then target
                 else landing (example_site [LDAP_BACKEND]))) = ''/''"
    by (simp add: example_request_def REDIRECT_FIELD_NAME_def example_site_fields)
  have next3: "(case GET (example_request ''POST'' ''alice'' ''secret'' Map.empty)
                  REDIRECT_FIELD_NAME of
              None \<Rightarrow> landing (example_site [LDAP_BACKEND])
            | Some target \<Rightarrow>
                (if resolve (example_site [LDAP_BACKEND]) target then target
                 else landing (example_site [LDAP_BACKEND]))) = ''/''"
    by (simp add: example_request_def REDIRECT_FIELD_NAME_def example_site_fields)
  note t1 = login_redirects_to_resolved_target [OF example_login_session
      [of "[''next'' \<mapsto> ''/calendar/'']"], THEN conjunct2]
  note t2 = login_redirects_to_resolved_target [OF example_login_session
      [of "[''next'' \<mapsto> ''http://evil.example/'']"], THEN conjunct2]
  note t3 = login_redirects_to_resolved_target [OF example_login_session
      [of Map.empty], THEN conjunct2]
  from t1 next1 t2 next2 t3 next3 show ?thesis
    by (simp only:)
qed






end
